theory Spec2Isabelle
  imports Complex_Main "HOL-Library.Sublist"
begin

section \<open>JavaScript values used by the views\<close>

text \<open>
  A JavaScript number as far as the views look at it: the code only asks whether a number is
  \<open>NaN\<close> and how it compares with another number. Finite numbers are kept exact; the
  rounding of doubles is not modelled, so every function that produces a double from
  text (\<open>parseFloat\<close>, \<open>Number\<close>) is a parameter of the model, never a definition.
\<close>

datatype jsnum = NaN | Num real | PosInf | NegInf

fun isNaN :: "jsnum \<Rightarrow> bool" where
  "isNaN NaN = True"
| "isNaN _ = False"

text \<open>\<open>x <= 0\<close> on numbers: every comparison with \<open>NaN\<close> is false.\<close>

fun le_zero :: "jsnum \<Rightarrow> bool" where
  "le_zero NaN = False"
| "le_zero (Num r) = (r \<le> 0)"
| "le_zero PosInf = False"
| "le_zero NegInf = True"

text \<open>\<open>n > x\<close> for an integer \<open>n\<close>.\<close>

fun int_gt :: "int \<Rightarrow> jsnum \<Rightarrow> bool" where
  "int_gt n NaN = False"
| "int_gt n (Num r) = (real_of_int n > r)"
| "int_gt n PosInf = False"
| "int_gt n NegInf = True"

text \<open>
  \<open>Math.ceil(a / b)\<close> for integers \<open>a\<close> and \<open>b\<close>: division by zero gives an infinity,
  or \<open>NaN\<close> for \<open>0 / 0\<close>.
\<close>

definition ceil_div :: "int \<Rightarrow> int \<Rightarrow> jsnum" where
  "ceil_div a b =
     (if b = 0 then (if a = 0 then NaN else if a > 0 then PosInf else NegInf)
      else Num (real_of_int \<lceil>real_of_int a / real_of_int b\<rceil>))"

text \<open>\<open>xs.slice(start, end)\<close>: a negative index counts from the end of the array.\<close>

definition slice :: "'a list \<Rightarrow> int \<Rightarrow> int \<Rightarrow> 'a list" where
  "slice xs start stop =
     (let n = int (length xs);
          s = (if start < 0 then max (n + start) 0 else min start n);
          e = (if stop < 0 then max (n + stop) 0 else min stop n)
      in take (nat (e - s)) (drop (nat s) xs))"

section \<open>Errors, status and the calls of a workflow run\<close>

text \<open>
  A value thrown by the wallet, a contract call, the backend or the ethers library, as far
  as the \<open>catch\<close> blocks read it: \<open>err.code\<close> (a string or a number), \<open>err.reason\<close>,
  \<open>err.message\<close>, \<open>err.data.message\<close> and the text \<open>JSON.stringify(err)\<close>.
\<close>

datatype code_value = CodeStr string | CodeNum int

record js_error =
  code :: "code_value option"
  reason :: "string option"
  message :: string
  data_message :: "string option"
  stringified :: string

text \<open>\<open>new Error(msg)\<close>: only the message is set, and it is not enumerable.\<close>

definition Error :: "string \<Rightarrow> js_error" where
  "Error msg = \<lparr>code = None, reason = None, message = msg, data_message = None,
                stringified = ''{}''\<rparr>"

text \<open>A string or \<open>undefined\<close> in a boolean position: \<open>undefined\<close> and \<open>''\<close> are falsy.\<close>

definition truthy :: "string option \<Rightarrow> bool" where
  "truthy s = (case s of None \<Rightarrow> False | Some t \<Rightarrow> t \<noteq> [])"

text \<open>The \<open>status\<close> state of \<open>ActionModal\<close>: \<open>{ loading, error, success }\<close>.\<close>

record status =
  loading :: bool
  error :: "string option"
  success :: "string option"

definition initial_status :: status where
  "initial_status = \<lparr>loading = False, error = None, success = None\<rparr>"

definition failed_with :: "string \<Rightarrow> status" where
  "failed_with msg = \<lparr>loading = False, error = Some msg, success = None\<rparr>"

definition busy :: "string \<Rightarrow> status" where
  "busy msg = \<lparr>loading = True, error = None, success = Some msg\<rparr>"

definition succeeded :: "string \<Rightarrow> status" where
  "succeeded msg = \<lparr>loading = False, error = None, success = Some msg\<rparr>"

datatype action = Deposit | Withdraw | Mint | Repay | AutoMint | Other

type_synonym address = string

definition VAULT_ADDRESS :: address where
  "VAULT_ADDRESS = ''0xF681Ba510d3C93A49a7AB2d02d9697BB2B0091FE''"

definition USDC_ADDRESS :: address where
  "USDC_ADDRESS = ''0xAC2f1680f2705d3Dd314534Bf24b424ccBC8D8f5''"

text \<open>
  What leaves the browser during a run: reads and submissions through the wallet (with the
  contract's address, and the spender and amount where there is one), waiting for a
  submitted transaction to be included, and the request to the backend.
\<close>

datatype call =
    CollateralConfigs address
  | BalanceOf address
  | Approve address address int
  | ApproveWait
  | DepositCollateral address int
  | WithdrawCollateral address int
  | MintTokens address int
  | BurnTokens address int
  | AutoMintCall address
  | TxWait
  | PostMintAuto address

text \<open>
  What a run does, in order: calls, \<open>setStatus\<close>, the refresh callback \<open>onSuccess()\<close> and
  the \<open>setTimeout\<close> that closes the modal. The callback is the \<open>async\<close> function
  \<open>fetchData\<close>, so calling it does not throw, and the run does not wait for it.
\<close>

datatype event = Net call | SetStatus status | OnSuccess | CloseLater

text \<open>A parsed JSON document.\<close>

datatype json =
    JNull
  | JBool bool
  | JNum real
  | JStr string
  | JArr "json list"
  | JObj "(string \<times> json) list"

text \<open>The answer of the backend to \<open>POST /mint/auto\<close>.\<close>

datatype fetch_result =
    FetchRejected js_error
  | Response bool "js_error + string option"

text \<open>
  The collaborators of one run, as a test double gives them: what each awaited call
  answers (\<open>None\<close>: it resolves; \<open>Some err\<close>: it rejects with \<open>err\<close>), and the
  built-ins of the language that work on doubles or depend on the locale: the two number
  parsers, \<open>toLocaleString\<close>, \<open>Intl.NumberFormat\<close> for US dollars with a given number of
  fraction digits (which throws a \<open>RangeError\<close> for a number of digits it does not
  support), the library's \<open>formatUnits\<close>, and the conversion of a parsed JSON value to a
  string. Every awaited call settles, and what it throws is an object.

  \<open>collateralConfigs\<close> answers the \<open>decimals\<close> property of the configuration, \<open>None\<close>
  when the object has no such property. In \<open>Response ok body\<close>, \<open>body\<close> is what reading
  the reason gives: \<open>Inl\<close> when \<open>res.json()\<close> rejects or the document is \<open>null\<close>, else
  the \<open>detail\<close> of the document as \<open>new Error\<close> would print it, \<open>None\<close> when it has
  none.
\<close>

record world =
  parseFloat :: "string \<Rightarrow> jsnum"
  Number :: "string \<Rightarrow> jsnum"
  formatUnits :: "int \<Rightarrow> nat \<Rightarrow> string"
  balanceOf :: "js_error + int"
  approve :: "js_error option"
  approveWait :: "js_error option"
  send :: "js_error option"
  wait :: "js_error option"
  collateralConfigs :: "js_error + nat option"
  mintAuto :: fetch_result
  toLocaleString :: "jsnum \<Rightarrow> string"
  currencyFormat :: "nat \<Rightarrow> jsnum \<Rightarrow> js_error + string"
  stringOf :: "json \<Rightarrow> string"

text \<open>
  Steps awaited one after the other: the run stops at the first one that rejects, which
  is still recorded as attempted, and hands the error to the \<open>catch\<close> block.
\<close>

fun run :: "(event \<times> js_error option) list \<Rightarrow> event list \<times> js_error option" where
  "run [] = ([], None)"
| "run ((ev, None) # rest) = (case run rest of (evs, r) \<Rightarrow> (ev # evs, r))"
| "run ((ev, Some err) # rest) = ([ev], Some err)"

text \<open>The status a run ends with is the last one it set.\<close>

fun final_status :: "event list \<Rightarrow> status option" where
  "final_status [] = None"
| "final_status (SetStatus st # evs) =
     (case final_status evs of None \<Rightarrow> Some st | Some st' \<Rightarrow> Some st')"
| "final_status (_ # evs) = final_status evs"

fun calls_of :: "event list \<Rightarrow> call list" where
  "calls_of [] = []"
| "calls_of (Net c # evs) = c # calls_of evs"
| "calls_of (_ # evs) = calls_of evs"

definition refreshes :: "event list \<Rightarrow> nat" where
  "refreshes evs = length (filter (\<lambda>e. e = OnSuccess) evs)"

text \<open>The terminal phases of the workflow, read off the status.\<close>

definition confirmed :: "status \<Rightarrow> bool" where
  "confirmed st = (loading st = False \<and> error st = None \<and> success st \<noteq> None)"

definition failed :: "status \<Rightarrow> bool" where
  "failed st = (error st \<noteq> None)"

section \<open>The unit conversion of the ethers library\<close>

text \<open>
  Every variant imports ethers 5.7.2 and converts the amount with
  \<open>ethers.utils.parseUnits(text, decimals)\<close>. The library is not part of the repository;
  the definitions below follow its \<open>parseFixed\<close>: the text must match \<open>/^-?[0-9.]+$/\<close>,
  has at most one point, and its fraction, once trailing zeros are dropped, must fit in
  \<open>decimals\<close> digits; otherwise the call throws. Nothing is rounded or cut off.
\<close>

definition argument_error :: "string \<Rightarrow> js_error" where
  "argument_error msg =
     \<lparr>code = Some (CodeStr ''INVALID_ARGUMENT''), reason = Some msg, message = msg,
      data_message = None, stringified = ''{reason:'' @ msg @ '',code:INVALID_ARGUMENT}''\<rparr>"

definition numeric_fault :: "string \<Rightarrow> js_error" where
  "numeric_fault msg =
     \<lparr>code = Some (CodeStr ''NUMERIC_FAULT''), reason = Some msg, message = msg,
      data_message = None, stringified = ''{reason:'' @ msg @ '',code:NUMERIC_FAULT}''\<rparr>"

definition is_digit :: "char \<Rightarrow> bool" where
  "is_digit c = (c \<in> set ''0123456789'')"

definition digit_val :: "char \<Rightarrow> nat" where
  "digit_val c = of_char c - 48"

text \<open>The number a string of digits denotes, most significant digit first.\<close>

definition digits_val :: "string \<Rightarrow> nat" where
  "digits_val ds = foldl (\<lambda>a c. 10 * a + digit_val c) 0 ds"

definition matches_decimal :: "string \<Rightarrow> bool" where
  "matches_decimal v =
     (let body = (if take 1 v = ''-'' then drop 1 v else v)
      in body \<noteq> [] \<and> list_all (\<lambda>c. is_digit c \<or> c = CHR ''.'') body)"

text \<open>\<open>value.split(".")\<close>.\<close>

fun split_dot :: "string \<Rightarrow> string list" where
  "split_dot [] = [[]]"
| "split_dot (c # cs) =
     (if c = CHR ''.'' then [] # split_dot cs
      else (case split_dot cs of [] \<Rightarrow> [[c]] | x # xs \<Rightarrow> (c # x) # xs))"

definition trim_zeros :: "string \<Rightarrow> string" where
  "trim_zeros f = rev (dropWhile (\<lambda>c. c = CHR ''0'') (rev f))"

definition parseFixed :: "string \<Rightarrow> nat \<Rightarrow> js_error + int" where
  "parseFixed v decimals =
     (if decimals > 256 then Inl (argument_error ''invalid decimal size'')
      else if \<not> matches_decimal v then Inl (argument_error ''invalid decimal value'')
      else
        let negative = (take 1 v = ''-'');
            u = (if negative then drop 1 v else v)
        in if u = ''.'' then Inl (argument_error ''missing value'')
           else
             let comps = split_dot u
             in if length comps > 2 then Inl (argument_error ''too many decimal points'')
                else
                  let whole = (if hd comps = [] then ''0'' else hd comps);
                      fraction = (if length comps < 2 \<or> comps ! 1 = [] then ''0''
                                  else comps ! 1);
                      trimmed = trim_zeros fraction
                  in if length trimmed > decimals
                     then Inl (numeric_fault ''fractional component exceeds decimals'')
                     else
                       let digits = (if trimmed = [] then ''0'' else trimmed);
                           padded = digits @ replicate (decimals - length digits) (CHR ''0'');
                           wei = int (digits_val whole * 10 ^ decimals + digits_val padded)
                       in Inr (if negative then - wei else wei))"

text \<open>
  \<open>parseUnits(value, unitName)\<close> with a number or \<open>undefined\<close> for \<open>unitName\<close>:
  \<open>undefined\<close> means 18 decimals.
\<close>

definition parseUnits :: "string \<Rightarrow> nat option \<Rightarrow> js_error + int" where
  "parseUnits v unitName = parseFixed v (case unitName of None \<Rightarrow> 18 | Some d \<Rightarrow> d)"

section \<open>DashboardPage.js: \<open>ActionModal.handleConfirm\<close>\<close>

definition stale_price_message :: string where
  "stale_price_message = ''Transaction failed: The oracle price for this asset is outdated. Please wait for the price to update and try again.''"

definition stale_price_short_message :: string where
  "stale_price_short_message = ''Transaction failed: The oracle price for this asset is outdated.''"

definition gas_message :: string where
  "gas_message = ''Cannot estimate gas. The transaction is likely to fail. This could be due to insufficient funds, an on-chain issue like stale prices, or another contract error.''"

definition unknown_message :: string where
  "unknown_message = ''An unknown error occurred. Please check the console.''"

text \<open>The \<open>catch\<close> block: from the thrown value to the message shown to the user.\<close>

definition friendlyMessage :: "js_error \<Rightarrow> string" where
  "friendlyMessage err =
     (if code err = Some (CodeStr ''UNPREDICTABLE_GAS_LIMIT'') \<or> code err = Some (CodeNum (- 32603))
         \<or> code err = Some (CodeStr ''CALL_EXCEPTION'')
      then (if sublist ''0xe450d38c'' (stringified err) then stale_price_message
            else gas_message)
      else if truthy (reason err) then ''Transaction failed: '' @ the (reason err)
      else if sublist ''PriceStale'' (stringified err) then stale_price_short_message
      else unknown_message)"

text \<open>The end of the \<open>try\<close> block, common to every action: wait, report, refresh.\<close>

definition finish :: "world \<Rightarrow> (event \<times> js_error option) list" where
  "finish w =
     [(SetStatus (busy ''Transaction sent...''), None),
      (Net TxWait, wait w),
      (SetStatus (succeeded ''Transaction successful!''), None),
      (OnSuccess, None),
      (CloseLater, None)]"

text \<open>The \<open>if\<close>/\<open>else if\<close> chain on \<open>modalType\<close>, from the submission on.\<close>

definition submit :: "world \<Rightarrow> action \<Rightarrow> int \<Rightarrow> event list \<times> js_error option" where
  "submit w modalType parsedAmount =
     (case modalType of
        Deposit \<Rightarrow>
          run ([(SetStatus (busy ''Waiting for approval...''), None),
                (Net (Approve USDC_ADDRESS VAULT_ADDRESS parsedAmount), approve w),
                (Net ApproveWait, approveWait w),
                (SetStatus (busy ''Approval successful. Depositing...''), None),
                (Net (DepositCollateral USDC_ADDRESS parsedAmount), send w)] @ finish w)
      | Withdraw \<Rightarrow>
          run ((Net (WithdrawCollateral USDC_ADDRESS parsedAmount), send w) # finish w)
      | Mint \<Rightarrow>
          run ((Net (MintTokens USDC_ADDRESS parsedAmount), send w) # finish w)
      | Repay \<Rightarrow>
          run ([(SetStatus (busy ''Waiting for approval...''), None),
                (Net (Approve USDC_ADDRESS VAULT_ADDRESS parsedAmount), approve w),
                (Net ApproveWait, approveWait w),
                (SetStatus (busy ''Approval successful. Repaying debt...''), None),
                (Net (BurnTokens USDC_ADDRESS parsedAmount), send w)] @ finish w)
      | AutoMint \<Rightarrow>
          run ((Net (AutoMintCall USDC_ADDRESS), send w) # finish w)
      | Other \<Rightarrow> ([], Some (Error ''Invalid action type'')))"

text \<open>
  The \<open>try\<close> block: the conversion of the amount, the balance read for deposit and
  repay (with its early \<open>return\<close>), then the submission.
\<close>

definition try_block :: "world \<Rightarrow> action \<Rightarrow> string \<Rightarrow> event list \<times> js_error option" where
  "try_block w modalType amount =
     (let amountStr = (if amount = [] then ''0'' else amount);
          decimals = 6
      in case parseUnits amountStr (Some decimals) of
           Inl err \<Rightarrow> ([], Some err)
         | Inr parsedAmount \<Rightarrow>
             if modalType = Deposit \<or> modalType = Repay then
               (case balanceOf w of
                  Inl err \<Rightarrow> ([Net (BalanceOf USDC_ADDRESS)], Some err)
                | Inr balance \<Rightarrow>
                    if balance < parsedAmount then
                      ([Net (BalanceOf USDC_ADDRESS),
                        SetStatus (failed_with (''Insufficient USDC balance. You have ''
                            @ formatUnits w balance decimals @ '' USDC.''))], None)
                    else
                      (case submit w modalType parsedAmount of
                         (evs, r) \<Rightarrow> (Net (BalanceOf USDC_ADDRESS) # evs, r)))
             else submit w modalType parsedAmount)"

text \<open>
  \<open>handleConfirm\<close> of \<open>ActionModal\<close>, with the \<open>provider\<close> prop (present or \<open>null\<close>), the
  \<open>modalType\<close> prop and the \<open>amount\<close> state: everything the run does, in order.
\<close>

definition handleConfirm :: "world \<Rightarrow> bool \<Rightarrow> action \<Rightarrow> string \<Rightarrow> event list" where
  "handleConfirm w provider modalType amount =
     (if \<not> provider \<or> (amount = [] \<and> modalType \<noteq> AutoMint) then
        [SetStatus (failed_with ''Amount is required.'')]
      else if modalType \<noteq> AutoMint
              \<and> (isNaN (parseFloat w amount) \<or> le_zero (parseFloat w amount)) then
        [SetStatus (failed_with ''Please enter a valid amount greater than zero.'')]
      else
        SetStatus (busy ''Preparing transaction...'') #
        (case try_block w modalType amount of
           (evs, None) \<Rightarrow> evs
         | (evs, Some err) \<Rightarrow> evs @ [SetStatus (failed_with (friendlyMessage err))]))"

section \<open>The second dashboard (part 001): \<open>ActionModal.handleConfirm\<close>\<close>

text \<open>
  Calling \<open>tx.wait()\<close> while \<open>tx\<close> is still \<open>undefined\<close> throws a \<open>TypeError\<close>, whose
  message depends on the engine.
\<close>

definition tx_undefined :: js_error where
  "tx_undefined = Error ''tx is undefined''"

definition message_p1 :: "js_error \<Rightarrow> string" where
  "message_p1 err =
     (if code err = Some (CodeStr ''UNPREDICTABLE_GAS_LIMIT'') then ''Gas estimate failed.''
      else if truthy (reason err) then the (reason err)
      else ''Unknown error.'')"

definition finish_p1 :: "world \<Rightarrow> (event \<times> js_error option) list" where
  "finish_p1 w =
     [(SetStatus (busy ''Sending tx...''), None),
      (Net TxWait, wait w),
      (SetStatus (succeeded ''Success!''), None),
      (OnSuccess, None),
      (CloseLater, None)]"

definition submit_p1 :: "world \<Rightarrow> action \<Rightarrow> address \<Rightarrow> int \<Rightarrow> event list \<times> js_error option" where
  "submit_p1 w modalType collateralAddress parsed =
     (case modalType of
        Deposit \<Rightarrow>
          run ([(SetStatus (busy ''Waiting approval...''), None),
                (Net (Approve collateralAddress VAULT_ADDRESS parsed), approve w),
                (Net ApproveWait, approveWait w),
                (SetStatus (busy ''Depositing...''), None),
                (Net (DepositCollateral collateralAddress parsed), send w)] @ finish_p1 w)
      | Withdraw \<Rightarrow>
          run ((Net (WithdrawCollateral collateralAddress parsed), send w) # finish_p1 w)
      | Mint \<Rightarrow>
          run ((Net (MintTokens collateralAddress parsed), send w) # finish_p1 w)
      | Repay \<Rightarrow>
          run ((Net (BurnTokens collateralAddress parsed), send w) # finish_p1 w)
      | AutoMint \<Rightarrow>
          run ((Net (AutoMintCall collateralAddress), send w) # finish_p1 w)
      | Other \<Rightarrow> ([SetStatus (busy ''Sending tx...'')], Some tx_undefined))"

definition handleConfirm_p1 ::
    "world \<Rightarrow> bool \<Rightarrow> action \<Rightarrow> address \<Rightarrow> string \<Rightarrow> event list" where
  "handleConfirm_p1 w provider modalType collateralAddress amount =
     (if \<not> provider
         \<or> (modalType \<noteq> AutoMint \<and> (amount = [] \<or> le_zero (Number w amount))) then
        [SetStatus (failed_with ''Enter a valid amount'')]
      else
        SetStatus (busy ''Preparing...'') #
        (case (case parseUnits (if amount = [] then ''0'' else amount) (Some 6) of
                 Inl err \<Rightarrow> ([], Some err)
               | Inr parsed \<Rightarrow> submit_p1 w modalType collateralAddress parsed) of
           (evs, None) \<Rightarrow> evs
         | (evs, Some err) \<Rightarrow> evs @ [SetStatus (failed_with (message_p1 err))]))"

section \<open>The third dashboard (part 002): \<open>ActionModal.handleConfirm\<close>\<close>

text \<open>\<open>err?.reason || err?.data?.message || err.message || "Transaction failed."\<close>\<close>

definition message_p2 :: "js_error \<Rightarrow> string" where
  "message_p2 err =
     (if truthy (reason err) then the (reason err)
      else if truthy (data_message err) then the (data_message err)
      else if message err \<noteq> [] then message err
      else ''Transaction failed.'')"

definition finish_p2 :: "world \<Rightarrow> (event \<times> js_error option) list" where
  "finish_p2 w =
     [(Net TxWait, wait w),
      (SetStatus (succeeded ''Success!''), None),
      (OnSuccess, None),
      (CloseLater, None)]"

text \<open>The auto-mint branch: the backend is asked first.\<close>

definition auto_mint_p2 :: "world \<Rightarrow> address \<Rightarrow> event list \<times> js_error option" where
  "auto_mint_p2 w collateral =
     (let asked = [SetStatus (busy ''Validating...''), Net (PostMintAuto collateral)]
      in case mintAuto w of
           FetchRejected err \<Rightarrow> (asked, Some err)
         | Response ok body \<Rightarrow>
             if \<not> ok then
               (case body of
                  Inl err \<Rightarrow> (asked, Some err)
                | Inr detail \<Rightarrow>
                    (asked, Some (Error (if truthy detail then the detail
                                         else ''Auto-mint validation failed''))))
             else
               (case run ([(SetStatus (busy ''Sending transaction...''), None),
                           (Net (AutoMintCall collateral), send w)] @ finish_p2 w) of
                  (evs, r) \<Rightarrow> (asked @ evs, r)))"

text \<open>The manual actions: the configuration is read, the amount converted, the call made.\<close>

definition decimals_p2 :: "action \<Rightarrow> nat option \<Rightarrow> nat option" where
  "decimals_p2 type cfg_decimals =
     (if type = Mint \<or> type = Repay then Some 6 else cfg_decimals)"

definition manual_p2 :: "world \<Rightarrow> action \<Rightarrow> address \<Rightarrow> string \<Rightarrow> event list \<times> js_error option" where
  "manual_p2 w type collateral amount =
     (case collateralConfigs w of
        Inl err \<Rightarrow> ([Net (CollateralConfigs collateral)], Some err)
      | Inr cfg_decimals \<Rightarrow>
          (case parseUnits amount (decimals_p2 type cfg_decimals) of
             Inl err \<Rightarrow> ([Net (CollateralConfigs collateral)], Some err)
           | Inr parsedAmt \<Rightarrow>
               (case (case type of
                        Deposit \<Rightarrow>
                          run ([(SetStatus (busy ''Approving...''), None),
                                (Net (Approve collateral VAULT_ADDRESS parsedAmt), approve w),
                                (Net ApproveWait, approveWait w),
                                (SetStatus (busy ''Depositing...''), None),
                                (Net (DepositCollateral collateral parsedAmt), send w)]
                               @ finish_p2 w)
                      | Withdraw \<Rightarrow>
                          run ((Net (WithdrawCollateral collateral parsedAmt), send w)
                               # finish_p2 w)
                      | Mint \<Rightarrow>
                          run ((Net (MintTokens collateral parsedAmt), send w) # finish_p2 w)
                      | Repay \<Rightarrow>
                          run ((Net (BurnTokens collateral parsedAmt), send w) # finish_p2 w)
                      | _ \<Rightarrow> ([], Some tx_undefined)) of
                  (evs, r) \<Rightarrow> (Net (CollateralConfigs collateral) # evs, r))))"

text \<open>
  \<open>handleConfirm\<close>, with the status the modal shows when the button is pressed (the two
  validation failures keep its other fields: \<open>{ ...status, error }\<close>), the \<open>provider\<close>
  prop, \<open>modalConfig.type\<close>, \<open>modalConfig.collateral\<close> and the \<open>amount\<close> state.
\<close>

definition handleConfirm_p2 ::
    "world \<Rightarrow> status \<Rightarrow> bool \<Rightarrow> action \<Rightarrow> address \<Rightarrow> string \<Rightarrow> event list" where
  "handleConfirm_p2 w status0 provider type collateral amount =
     (if \<not> provider \<or> (amount = [] \<and> type \<noteq> AutoMint) then
        [SetStatus (status0\<lparr>error := Some ''Amount is required.''\<rparr>)]
      else if type \<noteq> AutoMint
              \<and> (isNaN (parseFloat w amount) \<or> le_zero (parseFloat w amount)) then
        [SetStatus (status0\<lparr>error := Some ''Please enter a valid amount > 0.''\<rparr>)]
      else
        SetStatus (busy ''Preparing...'') #
        (case (if type = AutoMint then auto_mint_p2 w collateral
               else manual_p2 w type collateral amount) of
           (evs, None) \<Rightarrow> evs
         | (evs, Some err) \<Rightarrow> evs @ [SetStatus (failed_with (message_p2 err))]))"

section \<open>The display formatters\<close>

text \<open>The values the formatters are called with: a field of a backend document, or a number.\<close>

datatype jsvalue = VUndefined | VNull | VBool bool | VNum jsnum | VStr string

text \<open>
  The global \<open>isNaN(x)\<close> converts \<open>x\<close> to a number first: \<open>undefined\<close> becomes \<open>NaN\<close>,
  \<open>null\<close> becomes 0, a boolean 0 or 1, a string what \<open>Number\<close> makes of it.
\<close>

definition toNumber :: "world \<Rightarrow> jsvalue \<Rightarrow> jsnum" where
  "toNumber w v =
     (case v of
        VUndefined \<Rightarrow> NaN
      | VNull \<Rightarrow> Num 0
      | VBool b \<Rightarrow> Num (if b then 1 else 0)
      | VNum n \<Rightarrow> n
      | VStr s \<Rightarrow> Number w s)"

text \<open>
  \<open>parseFloat(x)\<close> converts \<open>x\<close> to a string first: \<open>undefined\<close>, \<open>null\<close> and the
  booleans become words that parse to \<open>NaN\<close>; a number prints and parses back to itself.
\<close>

definition parseFloat_of :: "world \<Rightarrow> jsvalue \<Rightarrow> jsnum" where
  "parseFloat_of w v =
     (case v of
        VUndefined \<Rightarrow> NaN
      | VNull \<Rightarrow> NaN
      | VBool b \<Rightarrow> NaN
      | VNum n \<Rightarrow> n
      | VStr s \<Rightarrow> parseFloat w s)"

text \<open>Reading a property of \<open>null\<close> throws a \<open>TypeError\<close>.\<close>

definition null_property :: js_error where
  "null_property = Error ''number is null''"

text \<open>DashboardPage.js, part 001, AdminPage.js and (for the first) LandingPage.js.\<close>

definition formatCurrency :: "world \<Rightarrow> jsvalue \<Rightarrow> nat \<Rightarrow> js_error + string" where
  "formatCurrency w v decimals =
     (let number = (case v of VStr s \<Rightarrow> VNum (parseFloat w s) | _ \<Rightarrow> v)
      in if isNaN (toNumber w number) then Inr ''$0.00''
         else currencyFormat w decimals (toNumber w number))"

definition formatNumber :: "world \<Rightarrow> jsvalue \<Rightarrow> js_error + string" where
  "formatNumber w v =
     (let number = (case v of VStr s \<Rightarrow> VNum (parseFloat w s) | _ \<Rightarrow> v)
      in if isNaN (toNumber w number) then Inr ''0''
         else (case number of
                 VNull \<Rightarrow> Inl null_property
               | VBool b \<Rightarrow> Inr (if b then ''true'' else ''false'')
               | _ \<Rightarrow> Inr (toLocaleString w (toNumber w number))))"

text \<open>Part 002.\<close>

definition formatCurrency_p2 :: "world \<Rightarrow> jsvalue \<Rightarrow> nat \<Rightarrow> js_error + string" where
  "formatCurrency_p2 w v d =
     (if \<not> isNaN (parseFloat_of w v) then currencyFormat w d (toNumber w v)
      else Inr ''$0.00'')"

definition formatNumber_p2 :: "world \<Rightarrow> jsvalue \<Rightarrow> js_error + string" where
  "formatNumber_p2 w v =
     (if \<not> isNaN (parseFloat_of w v) then Inr (toLocaleString w (parseFloat_of w v))
      else Inr ''0'')"

section \<open>The dashboard refresh: \<open>fetchData\<close>\<close>

record response =
  ok :: bool
  url :: string
  body :: "js_error + json"

text \<open>The snapshots and flags of the dashboard component.\<close>

record dashboard =
  vaultOverview :: json
  mintStatus :: json
  oraclePrice :: json
  dash_transactions :: json
  protocolHealth :: json
  dash_isLoading :: bool
  dash_error :: "string option"
  lastRefreshed :: nat

record dashboard_p2 = dashboard +
  pendingRequests :: json

text \<open>The five responses of \<open>Promise.all\<close>, in the order the code names them.\<close>

record replies =
  vaultRes :: response
  mintStatusRes :: response
  oracleRes :: response
  transactionsRes :: response
  protocolHealthRes :: response

text \<open>
  \<open>setX(await res.json())\<close>, one after the other: the first body that fails to parse
  throws, and what was stored before it stays stored.
\<close>

fun store_all ::
    "((json \<Rightarrow> 's \<Rightarrow> 's) \<times> (js_error + json)) list \<Rightarrow> 's \<Rightarrow> 's \<times> js_error option" where
  "store_all [] s = (s, None)"
| "store_all ((put, Inl err) # rest) s = (s, Some err)"
| "store_all ((put, Inr v) # rest) s = store_all rest (put v s)"

text \<open>
  \<open>fetchData\<close> of DashboardPage.js (part 001 has the same body and one more guard).
  \<open>fetched\<close> is the outcome of \<open>Promise.all\<close>: a rejection when a request fails to
  complete, else the five responses. \<open>now\<close> is the clock.
\<close>

definition fetchData ::
    "string option \<Rightarrow> string option \<Rightarrow> js_error + replies \<Rightarrow> nat \<Rightarrow> dashboard \<Rightarrow> dashboard" where
  "fetchData authToken walletAddress fetched now s =
     (if \<not> truthy authToken \<or> \<not> truthy walletAddress then s
      else
        case fetched of
          Inl err \<Rightarrow> s\<lparr>dash_isLoading := False, dash_error := Some (message err)\<rparr>
        | Inr r \<Rightarrow>
            if \<not> ok (vaultRes r) \<or> \<not> ok (mintStatusRes r) \<or> \<not> ok (oracleRes r)
               \<or> \<not> ok (transactionsRes r) \<or> \<not> ok (protocolHealthRes r)
            then s\<lparr>dash_isLoading := False,
                   dash_error := Some ''Failed to fetch dashboard data. Your session might have expired.''\<rparr>
            else
              (case store_all
                      [(\<lambda>v t. t\<lparr>vaultOverview := v\<rparr>, body (vaultRes r)),
                       (\<lambda>v t. t\<lparr>mintStatus := v\<rparr>, body (mintStatusRes r)),
                       (\<lambda>v t. t\<lparr>oraclePrice := v\<rparr>, body (oracleRes r)),
                       (\<lambda>v t. t\<lparr>dash_transactions := v\<rparr>, body (transactionsRes r)),
                       (\<lambda>v t. t\<lparr>protocolHealth := v\<rparr>, body (protocolHealthRes r))] s of
                 (t, None) \<Rightarrow>
                   t\<lparr>dash_isLoading := False, dash_error := None, lastRefreshed := now\<rparr>
               | (t, Some err) \<Rightarrow>
                   t\<lparr>dash_isLoading := False, dash_error := Some (message err)\<rparr>))"

text \<open>
  Part 002 asks for the vault position, the mint status, the protocol health, the
  transactions and the pending mint requests, and reads the \<open>detail\<close> of the first
  response that is not ok.
\<close>

record replies_p2 =
  vault_reply :: response
  mint_status_reply :: response
  health_reply :: response
  transactions_reply :: response
  requests_reply :: response

text \<open>\<open>x.name\<close> on a parsed document: \<open>null\<close> has no properties, an object may have it.\<close>

definition property :: "json \<Rightarrow> string \<Rightarrow> js_error + json option" where
  "property x name =
     (case x of
        JNull \<Rightarrow> Inl null_property
      | JObj members \<Rightarrow> Inr (map_of members name)
      | _ \<Rightarrow> Inr None)"

definition json_truthy :: "json \<Rightarrow> bool" where
  "json_truthy x =
     (case x of
        JNull \<Rightarrow> False
      | JBool b \<Rightarrow> b
      | JNum n \<Rightarrow> n \<noteq> 0
      | JStr t \<Rightarrow> t \<noteq> []
      | _ \<Rightarrow> True)"

text \<open>The loop over the responses: the error thrown at the first one that is not ok.\<close>

fun first_not_ok :: "world \<Rightarrow> response list \<Rightarrow> js_error option" where
  "first_not_ok w [] = None"
| "first_not_ok w (res # rest) =
     (if \<not> ok res then
        (case body res of
           Inl err \<Rightarrow> Some err
         | Inr errData \<Rightarrow>
             (case property errData ''detail'' of
                Inl err \<Rightarrow> Some err
              | Inr (Some d) \<Rightarrow>
                  Some (Error (if json_truthy d then stringOf w d
                               else ''Failed to fetch data from '' @ url res))
              | Inr None \<Rightarrow> Some (Error (''Failed to fetch data from '' @ url res))))
      else first_not_ok w rest)"

text \<open>\<open>Promise.all(responses.map(res => res.json()))\<close>: all the bodies, or a rejection.\<close>

fun all_bodies :: "response list \<Rightarrow> js_error + json list" where
  "all_bodies [] = Inr []"
| "all_bodies (res # rest) =
     (case body res of
        Inl err \<Rightarrow> Inl err
      | Inr v \<Rightarrow> (case all_bodies rest of Inl err \<Rightarrow> Inl err | Inr vs \<Rightarrow> Inr (v # vs)))"

definition fetchData_p2 ::
    "world \<Rightarrow> string option \<Rightarrow> string option \<Rightarrow> js_error + replies_p2 \<Rightarrow> nat
      \<Rightarrow> dashboard_p2 \<Rightarrow> dashboard_p2" where
  "fetchData_p2 w authToken walletAddress fetched now s =
     (if \<not> truthy authToken \<or> \<not> truthy walletAddress then s
      else
        case fetched of
          Inl err \<Rightarrow> s\<lparr>dash_isLoading := False, dash_error := Some (message err)\<rparr>
        | Inr r \<Rightarrow>
            let responses = [vault_reply r, mint_status_reply r, health_reply r,
                             transactions_reply r, requests_reply r]
            in case first_not_ok w responses of
                 Some err \<Rightarrow> s\<lparr>dash_isLoading := False, dash_error := Some (message err)\<rparr>
               | None \<Rightarrow>
                   (case all_bodies responses of
                      Inr [vaultData, mintStatusData, healthData, txData, requestsData] \<Rightarrow>
                        let t = s\<lparr>vaultOverview := vaultData, mintStatus := mintStatusData,
                                  protocolHealth := healthData\<rparr>
                        in (case property txData ''transactions'' of
                              Inl err \<Rightarrow>
                                t\<lparr>dash_isLoading := False, dash_error := Some (message err)\<rparr>
                            | Inr txs \<Rightarrow>
                                t\<lparr>dash_transactions :=
                                     (case txs of
                                        Some x \<Rightarrow> if json_truthy x then x else JArr []
                                      | None \<Rightarrow> JArr []),
                                   pendingRequests :=
                                     (if json_truthy requestsData then requestsData else JArr []),
                                   dash_isLoading := False, dash_error := None,
                                   lastRefreshed := now\<rparr>)
                    | Inr _ \<Rightarrow> s
                    | Inl err \<Rightarrow>
                        s\<lparr>dash_isLoading := False, dash_error := Some (message err)\<rparr>))"

section \<open>TransactionHistoryPage.js: the paginated history view\<close>

text \<open>
  A mock transaction keeps what \<open>generateMockTransactions\<close> derives from the index
  \<open>i\<close>: the event name and the pending flag (the hash is random and the time stamp reads
  the clock; neither is looked at by the pagination).
\<close>

record mock_tx =
  tx_index :: nat
  event_name :: string
  tx_pending :: bool

definition eventTypes :: "string list" where
  "eventTypes = [''CollateralDeposited'', ''CollateralWithdrawn'', ''TokensMinted'',
                 ''TokensBurned'', ''AutoMintExecuted'']"

definition allTransactions :: "mock_tx list" where
  "allTransactions =
     map (\<lambda>i. \<lparr>tx_index = i, event_name = eventTypes ! (i mod length eventTypes),
               tx_pending = (i mod 10 = 2)\<rparr>) [0..<47]"

text \<open>\<open>generateMockTransactions(page, limit, type)\<close> returns \<open>{total, transactions}\<close>.\<close>

definition generateMockTransactions :: "int \<Rightarrow> int \<Rightarrow> string \<Rightarrow> int \<times> mock_tx list" where
  "generateMockTransactions pg lmt type =
     (let filtered = (if type = ''all'' then allTransactions
                      else filter (\<lambda>tx. event_name tx = type) allTransactions);
          start = (pg - 1) * lmt;
          stop = start + lmt
      in (int (length filtered), slice filtered start stop))"

record pagination =
  page :: int
  limit :: int
  total :: int

record history_view =
  transactions :: "mock_tx list"
  pagination :: pagination
  filterType :: string
  isLoading :: bool
  view_error :: "string option"

text \<open>The state of \<open>TransactionHistoryView\<close> when it is mounted.\<close>

definition initial_view :: history_view where
  "initial_view =
     \<lparr>transactions = [], pagination = \<lparr>page = 1, limit = 10, total = 0\<rparr>,
      filterType = ''all'', isLoading = True, view_error = None\<rparr>"

text \<open>
  \<open>fetchTransactions(page, type)\<close>: the mock generator cannot fail, so the \<open>catch\<close>
  branch is never taken; the view ends with the new page, the new total and
  \<open>isLoading = false\<close>.
\<close>

definition fetchTransactions :: "history_view \<Rightarrow> int \<Rightarrow> string \<Rightarrow> history_view" where
  "fetchTransactions v pg type =
     (let (tot, txs) = generateMockTransactions pg (limit (pagination v)) type
      in v\<lparr>isLoading := False, view_error := None, transactions := txs,
            pagination := (pagination v)\<lparr>page := pg, total := tot\<rparr>\<rparr>)"

text \<open>
  \<open>handlePageChange(newPage)\<close>. The result is the view after the call and the list of
  fetches it started, each with its page and filter.
\<close>

definition handlePageChange :: "history_view \<Rightarrow> int \<Rightarrow> history_view \<times> (int \<times> string) list" where
  "handlePageChange v newPage =
     (if newPage < 1
         \<or> int_gt newPage (ceil_div (total (pagination v)) (limit (pagination v)))
      then (v, [])
      else (fetchTransactions v newPage (filterType v), [(newPage, filterType v)]))"

text \<open>\<open>handleFilterChange(type)\<close> stores the filter and fetches nothing itself.\<close>

definition handleFilterChange :: "history_view \<Rightarrow> string \<Rightarrow> history_view" where
  "handleFilterChange v type = v\<lparr>filterType := type\<rparr>"

text \<open>
  The effect of the component, with the dependencies \<open>[filterType, fetchTransactions]\<close>:
  after a render in which the filter differs from that of the render before (or the page
  size, on which \<open>fetchTransactions\<close> depends) it fetches page 1 with the filter of the
  view; otherwise it does nothing. On mounting it runs once, as
  \<open>fetchTransactions initial_view 1 ''all''\<close>.
\<close>

definition filter_effect :: "history_view \<Rightarrow> history_view \<Rightarrow> history_view" where
  "filter_effect previous v =
     (if filterType v \<noteq> filterType previous
         \<or> limit (pagination v) \<noteq> limit (pagination previous)
      then fetchTransactions v 1 (filterType v)
      else v)"

section \<open>Test doubles and the vocabulary of the properties\<close>

text \<open>
  A world in which the wallet holds 100 USDC and every call succeeds. Its number parsers
  know the amounts used below; any other text is not a number.
\<close>

definition amounts :: "string \<Rightarrow> jsnum" where
  "amounts t =
     (if t = ''10'' then Num 10 else if t = ''100'' then Num 100
      else if t = ''0'' then Num 0 else if t = ''1.0000001'' then Num 1.0000001
      else NaN)"

definition world_ok :: world where
  "world_ok =
     \<lparr>parseFloat = amounts, Number = amounts, formatUnits = (\<lambda>n d. ''100.0''),
      balanceOf = Inr 100000000, approve = None, approveWait = None, send = None,
      wait = None, collateralConfigs = Inr (Some 6), mintAuto = Response True (Inr None),
      toLocaleString = (\<lambda>n. ''1''), currencyFormat = (\<lambda>d n. Inr ''$1.00''),
      stringOf = (\<lambda>j. ''detail'')\<rparr>"

text \<open>
  Two rejections that carry the selector of \<open>PriceStale\<close> in their data: one as the
  library reports a failed gas estimation, one as a node reports a revert.
\<close>

definition gas_revert :: js_error where
  "gas_revert =
     \<lparr>code = Some (CodeStr ''UNPREDICTABLE_GAS_LIMIT''), reason = Some ''cannot estimate gas'',
      message = ''cannot estimate gas'', data_message = None,
      stringified = ''{code:UNPREDICTABLE_GAS_LIMIT,error:{data:0xe450d38c}}''\<rparr>"

definition rpc_revert :: js_error where
  "rpc_revert =
     \<lparr>code = Some (CodeNum (- 32000)), reason = None, message = ''execution reverted'',
      data_message = None, stringified = ''{code:-32000,data:0xe450d38c}''\<rparr>"

text \<open>
  The dashboard when it is mounted, a response that is ok, one that is not, and the five
  responses of a refresh of which the fourth is not ok.
\<close>

definition initial_dashboard :: dashboard where
  "initial_dashboard =
     \<lparr>vaultOverview = JNull, mintStatus = JNull, oraclePrice = JNull, dash_transactions = JArr [],
      protocolHealth = JNull, dash_isLoading = True, dash_error = None, lastRefreshed = 0\<rparr>"

definition initial_dashboard_p2 :: dashboard_p2 where
  "initial_dashboard_p2 =
     \<lparr>vaultOverview = JNull, mintStatus = JNull, oraclePrice = JNull, dash_transactions = JArr [],
      protocolHealth = JNull, dash_isLoading = True, dash_error = None, lastRefreshed = 0,
      pendingRequests = JArr []\<rparr>"

definition reply_ok :: response where
  "reply_ok = \<lparr>ok = True, url = ''https://tghsx.onrender.com/vault/mint-status'', body = Inr (JObj [])\<rparr>"

definition reply_401 :: response where
  "reply_401 = \<lparr>ok = False, url = ''https://tghsx.onrender.com/transactions?page=1&limit=5'',
                 body = Inr (JObj [(''detail'', JStr ''Not authenticated'')])\<rparr>"

definition one_401 :: replies where
  "one_401 = \<lparr>vaultRes = reply_ok, mintStatusRes = reply_ok, oracleRes = reply_ok,
               transactionsRes = reply_401, protocolHealthRes = reply_ok\<rparr>"

definition one_401_p2 :: replies_p2 where
  "one_401_p2 = \<lparr>vault_reply = reply_ok, mint_status_reply = reply_ok, health_reply = reply_ok,
                  transactions_reply = reply_401, requests_reply = reply_ok\<rparr>"

text \<open>The five snapshots of the dashboard.\<close>

definition snapshots :: "'a dashboard_scheme \<Rightarrow> json \<times> json \<times> json \<times> json \<times> json" where
  "snapshots s =
     (vaultOverview s, mintStatus s, oraclePrice s, dash_transactions s, protocolHealth s)"

text \<open>
  A run obeys the refresh rule when it ends confirmed or failed, with exactly one call of
  the refresh callback if it ends confirmed and none if it ends failed.
\<close>

definition refresh_rule :: "event list \<Rightarrow> bool" where
  "refresh_rule evs =
     (\<exists>st. final_status evs = Some st
         \<and> (confirmed st \<or> failed st)
         \<and> (confirmed st \<longrightarrow> refreshes evs = 1)
         \<and> (failed st \<longrightarrow> refreshes evs = 0))"

text \<open>
  What a \<open>try\<close> block hands over: if it throws it has not refreshed; if it returns it
  obeys the refresh rule.
\<close>

definition settled :: "event list \<times> js_error option \<Rightarrow> bool" where
  "settled p =
     (case p of
        (evs, Some err) \<Rightarrow> refreshes evs = 0
      | (evs, None) \<Rightarrow> refresh_rule evs)"

text \<open>The primary call of a deposit and of a repayment in DashboardPage.js.\<close>

definition primary :: "action \<Rightarrow> int \<Rightarrow> call" where
  "primary a n = (if a = Deposit then DepositCollateral USDC_ADDRESS n else BurnTokens USDC_ADDRESS n)"

text \<open>
  The number a decimal text denotes: an optional sign, the digits before the point, and
  the digits after it, each worth a tenth of the one before.
\<close>

fun fraction_value :: "string \<Rightarrow> real" where
  "fraction_value [] = 0"
| "fraction_value (c # cs) = (real (digit_val c) + fraction_value cs) / 10"

definition text_value :: "string \<Rightarrow> real" where
  "text_value v =
     (let negative = (take 1 v = ''-'');
          u = (if negative then drop 1 v else v);
          whole = takeWhile (\<lambda>c. c \<noteq> CHR ''.'') u;
          fraction = drop 1 (dropWhile (\<lambda>c. c \<noteq> CHR ''.'') u)
      in (if negative then - 1 else 1) * (real (digits_val whole) + fraction_value fraction))"

text \<open>The amount a call carries, if it carries one.\<close>

definition amount_of :: "call \<Rightarrow> int option" where
  "amount_of c =
     (case c of
        Approve token spender n \<Rightarrow> Some n
      | DepositCollateral collateral n \<Rightarrow> Some n
      | WithdrawCollateral collateral n \<Rightarrow> Some n
      | MintTokens collateral n \<Rightarrow> Some n
      | BurnTokens collateral n \<Rightarrow> Some n
      | _ \<Rightarrow> None)"


text \<open>
  A run is an invalid-amount failure when it has made no network call, has not called the
  refresh callback and has ended failed.
\<close>

definition invalid_amount_failure :: "event list \<Rightarrow> bool" where
  "invalid_amount_failure evs =
     (calls_of evs = [] \<and> refreshes evs = 0
      \<and> (case final_status evs of None \<Rightarrow> False | Some st \<Rightarrow> failed st))"

text \<open>
  The world of part 002 as its ABI makes it: \<open>collateralConfigs\<close> is declared with unnamed
  outputs, so the configuration it returns has no \<open>decimals\<close> property.
\<close>

definition world_p2 :: world where
  "world_p2 = world_ok\<lparr>collateralConfigs := Inr None\<rparr>"

section \<open>Runs, statuses and the test doubles\<close>

lemma final_status_snoc [simp]: "final_status (evs @ [SetStatus st]) = Some st"
proof (induction evs)
  case Nil show ?case by simp
next
  case (Cons e evs) then show ?case by (cases e) simp_all
qed

lemma refreshes_Nil [simp]: "refreshes [] = 0"
  by (simp add: refreshes_def)

lemma refreshes_Cons [simp]: "refreshes (e # evs) = (if e = OnSuccess then 1 else 0) + refreshes evs"
  by (simp add: refreshes_def)

lemma refreshes_append [simp]: "refreshes (xs @ ys) = refreshes xs + refreshes ys"
  by (simp add: refreshes_def)

lemma calls_of_append [simp]: "calls_of (xs @ ys) = calls_of xs @ calls_of ys"
proof (induction xs)
  case Nil show ?case by simp
next
  case (Cons e xs) then show ?case by (cases e) simp_all
qed

lemma status_simps [simp]:
  "confirmed (succeeded m)" "\<not> failed (succeeded m)"
  "failed (failed_with m)" "\<not> confirmed (failed_with m)"
  "\<not> confirmed (busy m)" "\<not> failed (busy m)"
  by (simp_all add: confirmed_def failed_def succeeded_def failed_with_def busy_def)

lemma digits_val_snoc_zero: "digits_val (ds @ [CHR ''0'']) = digits_val ds * 10"
  by (simp add: digits_val_def digit_val_def)

lemma digits_val_zeros: "digits_val (ds @ replicate k (CHR ''0'')) = digits_val ds * 10 ^ k"
proof (induction k arbitrary: ds)
  case 0
  show ?case by simp
next
  case (Suc k)
  have "ds @ replicate (Suc k) (CHR ''0'') = (ds @ [CHR ''0'']) @ replicate k (CHR ''0'')"
    by simp
  then show ?case
    using Suc [of "ds @ [CHR ''0'']"]
    by (simp add: digits_val_snoc_zero del: replicate_Suc append_assoc)
qed

lemmas parse_defs = parseUnits_def parseFixed_def matches_decimal_def is_digit_def trim_zeros_def

lemma parseUnits_10: "parseUnits ''10'' (Some 6) = Inr 10000000"
  by (simp add: parse_defs digits_val_zeros) (simp add: digits_val_def digit_val_def)

lemma parseUnits_100: "parseUnits ''100'' (Some 6) = Inr 100000000"
  by (simp add: parse_defs digits_val_zeros) (simp add: digits_val_def digit_val_def)

lemma parseUnits_0: "parseUnits ''0'' (Some 6) = Inr 0"
  by (simp add: parse_defs digits_val_zeros) (simp add: digits_val_def digit_val_def)

lemma parseUnits_abc: "parseUnits ''abc'' (Some 6) = Inl (argument_error ''invalid decimal value'')"
  by (simp add: parse_defs)


lemma world_ok_simps [simp]:
  "parseFloat world_ok = amounts" "Number world_ok = amounts"
  "balanceOf world_ok = Inr 100000000" "approve world_ok = None" "approveWait world_ok = None"
  "send world_ok = None" "wait world_ok = None" "collateralConfigs world_ok = Inr (Some 6)"
  "mintAuto world_ok = Response True (Inr None)"
  by (simp_all add: world_ok_def)

lemma amounts_simps [simp]:
  "amounts ''10'' = Num 10" "amounts ''100'' = Num 100" "amounts ''0'' = Num 0"
  "amounts ''abc'' = NaN" "amounts [] = NaN"
  by (simp_all add: amounts_def)

lemma run_ok_deposit:
  "handleConfirm world_ok True Deposit ''10'' =
     [SetStatus (busy ''Preparing transaction...''),
      Net (BalanceOf USDC_ADDRESS),
      SetStatus (busy ''Waiting for approval...''),
      Net (Approve USDC_ADDRESS VAULT_ADDRESS 10000000),
      Net ApproveWait,
      SetStatus (busy ''Approval successful. Depositing...''),
      Net (DepositCollateral USDC_ADDRESS 10000000),
      SetStatus (busy ''Transaction sent...''),
      Net TxWait,
      SetStatus (succeeded ''Transaction successful!''),
      OnSuccess,
      CloseLater]"
  by (simp add: handleConfirm_def try_block_def submit_def finish_def parseUnits_10)

lemma run_low_deposit:
  "handleConfirm (world_ok\<lparr>balanceOf := Inr 50000000, formatUnits := (\<lambda>n d. ''50.0'')\<rparr>) True Deposit ''100'' =
     [SetStatus (busy ''Preparing transaction...''),
      Net (BalanceOf USDC_ADDRESS),
      SetStatus (failed_with ''Insufficient USDC balance. You have 50.0 USDC.'')]"
  by (simp add: handleConfirm_def try_block_def parseUnits_100 world_ok_def amounts_def)


lemma try_block_mint_rejected:
  "try_block (world_ok\<lparr>send := Some err\<rparr>) Mint ''10'' = ([Net (MintTokens USDC_ADDRESS 10000000)], Some err)"
  by (simp add: try_block_def submit_def finish_def parseUnits_10 world_ok_def)

section \<open>The approval before a deposit and a repayment\<close>

text \<open>
  In DashboardPage.js the calls of a deposit or a repayment are a prefix of: balance read,
  approval, wait for the approval, the primary call, wait for it. The primary call is
  made only when the approval was submitted and its inclusion awaited without error.
\<close>

lemma approval_precedes_primary:
  assumes "a = Deposit \<or> a = Repay"
  shows "\<exists>n. prefix (calls_of (handleConfirm w provider a amount))
               [BalanceOf USDC_ADDRESS, Approve USDC_ADDRESS VAULT_ADDRESS n, ApproveWait,
                primary a n, TxWait]
           \<and> (primary a n \<in> set (calls_of (handleConfirm w provider a amount))
                \<longrightarrow> approve w = None \<and> approveWait w = None)"
proof (cases "parseUnits (if amount = [] then ''0'' else amount) (Some 6)")
  case (Inl err)
  then show ?thesis
    by (auto simp: handleConfirm_def try_block_def)
next
  case (Inr n)
  have "prefix (calls_of (handleConfirm w provider a amount))
               [BalanceOf USDC_ADDRESS, Approve USDC_ADDRESS VAULT_ADDRESS n, ApproveWait,
                primary a n, TxWait]
           \<and> (primary a n \<in> set (calls_of (handleConfirm w provider a amount))
                \<longrightarrow> approve w = None \<and> approveWait w = None)"
  proof (cases "balanceOf w")
    case (Inl err)
    then show ?thesis using assms Inr
      by (auto simp: handleConfirm_def try_block_def primary_def)
  next
    case (Inr b)
    show ?thesis
    proof (cases "b < n")
      case True
      then show ?thesis using assms \<open>balanceOf w = Inr b\<close> \<open>parseUnits _ _ = Inr n\<close>
        by (auto simp: handleConfirm_def try_block_def primary_def)
    next
      case False
      then show ?thesis using assms \<open>balanceOf w = Inr b\<close> \<open>parseUnits _ _ = Inr n\<close>
        by (cases "approve w"; cases "approveWait w"; cases "send w"; cases "wait w")
           (auto simp: handleConfirm_def try_block_def submit_def finish_def primary_def)
    qed
  qed
  then show ?thesis by blast
qed

text \<open>
  C1. The approval of the allowance is submitted and confirmed before the primary call of
  a deposit or a repayment. Part 001 does not keep this order for a repayment: with a
  provider, a non-empty amount that is not \<open>\<le> 0\<close> and converts to \<open>n\<close>, the first call
  of the run is \<open>burnTokens(collateral, n)\<close>; no approval is requested and none is
  awaited, whatever the collaborators answer.
\<close>

theorem repay_without_approval_p1:
  assumes "amount \<noteq> []" and "\<not> le_zero (Number w amount)"
    and "parseUnits amount (Some 6) = Inr n"
  shows "calls_of (handleConfirm_p1 w True Repay c amount)
           = (if send w = None then [BurnTokens c n, TxWait] else [BurnTokens c n])"
  using assms
  by (cases "send w"; cases "wait w")
     (simp_all add: handleConfirm_p1_def submit_p1_def finish_p1_def)

theorem repay_without_approval_p1_witness:
  "''10'' \<noteq> [] \<and> \<not> le_zero (Number world_ok ''10'') \<and> parseUnits ''10'' (Some 6) = Inr 10000000
   \<and> calls_of (handleConfirm_p1 world_ok True Repay USDC_ADDRESS ''10'')
       = [BurnTokens USDC_ADDRESS 10000000, TxWait]"
proof -
  have a: "''10'' \<noteq> []" "\<not> le_zero (Number world_ok ''10'')"
    by simp_all
  show ?thesis
    using repay_without_approval_p1 [OF a parseUnits_10, of USDC_ADDRESS] a parseUnits_10
    by simp
qed

section \<open>The balance read before a deposit and a repayment\<close>

text \<open>
  In DashboardPage.js a balance below the converted amount ends the run after the balance
  read: no approval and no contract call follow, and the status names the balance.
\<close>

lemma insufficient_balance_stops:
  assumes "a = Deposit \<or> a = Repay"
    and "amount \<noteq> []" and "\<not> isNaN (parseFloat w amount)" and "\<not> le_zero (parseFloat w amount)"
    and "parseUnits amount (Some 6) = Inr n" and "balanceOf w = Inr b" and "b < n"
  shows "handleConfirm w True a amount =
           [SetStatus (busy ''Preparing transaction...''), Net (BalanceOf USDC_ADDRESS),
            SetStatus (failed_with (''Insufficient USDC balance. You have '' @ formatUnits w b 6 @ '' USDC.''))]"
  using assms by (auto simp: handleConfirm_def try_block_def)

lemma manual_p2_ignores_balance:
  "manual_p2 (w\<lparr>balanceOf := b\<rparr>) a c amount = manual_p2 w a c amount"
  by (cases a) (simp_all add: manual_p2_def finish_p2_def split: sum.splits)

lemma auto_mint_p2_ignores_balance:
  "auto_mint_p2 (w\<lparr>balanceOf := b\<rparr>) c = auto_mint_p2 w c"
  by (simp add: auto_mint_p2_def finish_p2_def Let_def split: fetch_result.splits sum.splits)

text \<open>
  C2. With a balance below the requested amount, a deposit or a repayment issues no
  approval and no state-changing call and ends with the insufficient-balance failure.
  Part 002 never reads the balance: a run is the same whatever \<open>balanceOf\<close> would
  answer, and with a valid amount its first two calls are the configuration read and
  then the approval (deposit) or \<open>burnTokens\<close> (repayment).
\<close>

theorem no_balance_check_p2:
  assumes "a = Deposit \<or> a = Repay"
    and "amount \<noteq> []" and "\<not> isNaN (parseFloat w amount)" and "\<not> le_zero (parseFloat w amount)"
    and "collateralConfigs w = Inr d" and "parseUnits amount (decimals_p2 a d) = Inr n"
  shows "handleConfirm_p2 (w\<lparr>balanceOf := b\<rparr>) st True a c amount = handleConfirm_p2 w st True a c amount
       \<and> take 2 (calls_of (handleConfirm_p2 w st True a c amount))
           = [CollateralConfigs c, if a = Deposit then Approve c VAULT_ADDRESS n else BurnTokens c n]"
proof -
  have "handleConfirm_p2 (w\<lparr>balanceOf := b\<rparr>) st True a c amount = handleConfirm_p2 w st True a c amount"
    by (simp add: handleConfirm_p2_def manual_p2_ignores_balance auto_mint_p2_ignores_balance)
  moreover have "take 2 (calls_of (handleConfirm_p2 w st True a c amount))
           = [CollateralConfigs c, if a = Deposit then Approve c VAULT_ADDRESS n else BurnTokens c n]"
    using assms
    by (cases "approve w"; cases "approveWait w"; cases "send w"; cases "wait w")
       (auto simp: handleConfirm_p2_def manual_p2_def finish_p2_def)
  ultimately show ?thesis by simp
qed

theorem no_balance_check_p2_witness:
  "calls_of (handleConfirm_p2 (world_ok\<lparr>balanceOf := Inr 50000000\<rparr>) initial_status True Deposit USDC_ADDRESS ''100'')
     = [CollateralConfigs USDC_ADDRESS, Approve USDC_ADDRESS VAULT_ADDRESS 100000000, ApproveWait,
        DepositCollateral USDC_ADDRESS 100000000, TxWait]
   \<and> take 2 (calls_of (handleConfirm_p2 (world_ok\<lparr>balanceOf := Inr 50000000\<rparr>) initial_status True Deposit USDC_ADDRESS ''100''))
     = [CollateralConfigs USDC_ADDRESS, Approve USDC_ADDRESS VAULT_ADDRESS 100000000]"
proof -
  let ?w = "world_ok\<lparr>balanceOf := Inr 50000000\<rparr>"
  have p: "parseUnits ''100'' (decimals_p2 Deposit (Some 6)) = Inr 100000000"
    by (simp add: decimals_p2_def parseUnits_100)
  have e: "calls_of (handleConfirm_p2 ?w initial_status True Deposit USDC_ADDRESS ''100'')
     = [CollateralConfigs USDC_ADDRESS, Approve USDC_ADDRESS VAULT_ADDRESS 100000000, ApproveWait,
        DepositCollateral USDC_ADDRESS 100000000, TxWait]"
    by (simp add: handleConfirm_p2_def manual_p2_def finish_p2_def p)
  show ?thesis
    using no_balance_check_p2 [where a = Deposit and amount = "''100''" and w = ?w and d = "Some 6"
            and n = 100000000 and b = "Inr 50000000" and st = initial_status and c = USDC_ADDRESS] p e
    by simp
qed

section \<open>The eligibility check before an auto-mint\<close>

text \<open>
  In part 002 the request to the backend is the first call of an auto-mint, and a
  rejection with a reason ends the run with that reason and without a contract call.
\<close>

lemma auto_mint_asks_first_p2:
  "take 1 (calls_of (handleConfirm_p2 w st True AutoMint c amount)) = [PostMintAuto c]"
  by (cases "mintAuto w"; cases "send w"; cases "wait w")
     (auto simp: handleConfirm_p2_def auto_mint_p2_def finish_p2_def Let_def split: sum.splits)

lemma auto_mint_rejected_p2:
  assumes "mintAuto w = Response False (Inr (Some d))" and "d \<noteq> []"
  shows "handleConfirm_p2 w st True AutoMint c amount =
           [SetStatus (busy ''Preparing...''), SetStatus (busy ''Validating...''),
            Net (PostMintAuto c), SetStatus (failed_with d)]"
  using assms
  by (simp add: handleConfirm_p2_def auto_mint_p2_def truthy_def message_p2_def Error_def)

lemma submit_ignores_backend: "submit (w\<lparr>mintAuto := x\<rparr>) a n = submit w a n"
  by (cases a) (simp_all add: submit_def finish_def)

lemma try_block_ignores_backend:
  "try_block (w\<lparr>mintAuto := x\<rparr>) a amount = try_block w a amount"
  by (simp add: try_block_def submit_ignores_backend Let_def split: sum.splits)

text \<open>
  C3. An auto-mint asks the backend for eligibility before any contract call, and a
  rejection stops the run. DashboardPage.js does not ask: an auto-mint run is the same
  whatever the backend would answer, and its first call is \<open>autoMint(USDC)\<close>.
\<close>

theorem auto_mint_without_eligibility:
  "handleConfirm (w\<lparr>mintAuto := answer\<rparr>) True AutoMint [] = handleConfirm w True AutoMint []
   \<and> calls_of (handleConfirm w True AutoMint [])
       = (if send w = None then [AutoMintCall USDC_ADDRESS, TxWait] else [AutoMintCall USDC_ADDRESS])"
proof -
  have "handleConfirm (w\<lparr>mintAuto := answer\<rparr>) True AutoMint [] = handleConfirm w True AutoMint []"
    by (simp add: handleConfirm_def try_block_ignores_backend)
  moreover have "calls_of (handleConfirm w True AutoMint [])
       = (if send w = None then [AutoMintCall USDC_ADDRESS, TxWait] else [AutoMintCall USDC_ADDRESS])"
    by (cases "send w"; cases "wait w")
       (simp_all add: handleConfirm_def try_block_def submit_def finish_def parseUnits_0)
  ultimately show ?thesis by simp
qed

theorem auto_mint_without_eligibility_witness:
  "calls_of (handleConfirm (world_ok\<lparr>mintAuto := Response False (Inr (Some ''cooldown active''))\<rparr>) True AutoMint [])
     = [AutoMintCall USDC_ADDRESS, TxWait]"
  using auto_mint_without_eligibility
          [where w = world_ok and answer = "Response False (Inr (Some ''cooldown active''))"]
  by simp

section \<open>The conversion of the amount\<close>

lemma foldl_digits:
  "foldl (\<lambda>a c. 10 * a + digit_val c) a cs
     = a * 10 ^ length cs + foldl (\<lambda>a c. 10 * a + digit_val c) 0 cs"
proof (induction cs arbitrary: a)
  case Nil
  show ?case by simp
next
  case (Cons c cs)
  show ?case
    using Cons [of "10 * a + digit_val c"] Cons [of "digit_val c"]
    by (simp add: algebra_simps)
qed

lemma digits_val_Cons: "digits_val (c # cs) = digit_val c * 10 ^ length cs + digits_val cs"
  using foldl_digits [of "digit_val c" cs] by (simp add: digits_val_def)

lemma digits_val_fraction: "real (digits_val f) = fraction_value f * 10 ^ length f"
proof (induction f)
  case Nil
  show ?case by (simp add: digits_val_def)
next
  case (Cons c f)
  then show ?case by (simp add: digits_val_Cons algebra_simps)
qed

lemma fraction_value_zeros_only: "fraction_value (replicate k (CHR ''0'')) = 0"
  by (induction k) (simp_all add: digit_val_def)

lemma fraction_value_zeros: "fraction_value (f @ replicate k (CHR ''0'')) = fraction_value f"
  by (induction f) (simp_all add: fraction_value_zeros_only)

lemma trim_zeros_decomp: "\<exists>k. f = trim_zeros f @ replicate k (CHR ''0'')"
proof -
  let ?P = "\<lambda>c. c = CHR ''0''"
  have "rev f = takeWhile ?P (rev f) @ dropWhile ?P (rev f)"
    by simp
  then have "f = rev (dropWhile ?P (rev f)) @ rev (takeWhile ?P (rev f))"
    by (metis rev_append rev_rev_ident)
  moreover have "rev (takeWhile ?P (rev f)) = replicate (length (takeWhile ?P (rev f))) (CHR ''0'')"
  proof -
    have "\<forall>y \<in> set (rev (takeWhile ?P (rev f))). y = CHR ''0''"
      by (auto dest: set_takeWhileD)
    then show ?thesis
      using replicate_length_same [of "rev (takeWhile ?P (rev f))" "CHR ''0''"] by simp
  qed
  ultimately show ?thesis
    unfolding trim_zeros_def by metis
qed

lemma fraction_value_trim: "fraction_value (trim_zeros f) = fraction_value f"
  using trim_zeros_decomp [of f] fraction_value_zeros by metis

lemma split_dot_unfold:
  "split_dot u = takeWhile (\<lambda>c. c \<noteq> CHR ''.'') u
                 # (case dropWhile (\<lambda>c. c \<noteq> CHR ''.'') u of [] \<Rightarrow> [] | d # rest \<Rightarrow> split_dot rest)"
proof (induction u)
  case Nil
  show ?case by simp
next
  case (Cons c u)
  then show ?case by (cases "c = CHR ''.''") (auto split: list.splits)
qed

lemma split_dot_single: "length (split_dot u) = 1 \<Longrightarrow> split_dot u = [u]"
proof -
  assume l: "length (split_dot u) = 1"
  have "dropWhile (\<lambda>c. c \<noteq> CHR ''.'') u = []"
  proof (cases "dropWhile (\<lambda>c. c \<noteq> CHR ''.'') u")
    case Nil then show ?thesis .
  next
    case (Cons d rest)
    have "split_dot rest \<noteq> []" using split_dot_unfold [of rest] by simp
    then have "length (split_dot u) \<ge> 2"
      using split_dot_unfold [of u] Cons by (cases "split_dot rest") simp_all
    with l show ?thesis by simp
  qed
  then have "takeWhile (\<lambda>c. c \<noteq> CHR ''.'') u = u"
    by (metis append_Nil2 takeWhile_dropWhile_id)
  then show ?thesis
    using split_dot_unfold [of u] \<open>dropWhile _ u = []\<close> by simp
qed

text \<open>
  What \<open>parseFixed\<close> reads as the whole part and as the fraction.
\<close>

lemma split_dot_parts:
  assumes "length (split_dot u) \<le> 2"
  shows "hd (split_dot u) = takeWhile (\<lambda>c. c \<noteq> CHR ''.'') u"
    and "(if length (split_dot u) < 2 then [] else split_dot u ! 1)
           = drop 1 (dropWhile (\<lambda>c. c \<noteq> CHR ''.'') u)"
proof -
  show "hd (split_dot u) = takeWhile (\<lambda>c. c \<noteq> CHR ''.'') u"
    using split_dot_unfold [of u] by simp
  show "(if length (split_dot u) < 2 then [] else split_dot u ! 1)
           = drop 1 (dropWhile (\<lambda>c. c \<noteq> CHR ''.'') u)"
  proof (cases "dropWhile (\<lambda>c. c \<noteq> CHR ''.'') u")
    case Nil
    then show ?thesis using split_dot_unfold [of u] by (simp del: dropWhile_eq_Nil_conv)
  next
    case (Cons d rest)
    then have u: "split_dot u = takeWhile (\<lambda>c. c \<noteq> CHR ''.'') u # split_dot rest"
      using split_dot_unfold [of u] by simp
    have "split_dot rest \<noteq> []" using split_dot_unfold [of rest] by simp
    with assms u have "length (split_dot rest) = 1"
      by (cases "split_dot rest") simp_all
    then have "split_dot rest = [rest]" by (rule split_dot_single)
    then show ?thesis using u Cons by simp
  qed
qed

text \<open>
  When the conversion succeeds, its result is the value of the text scaled by
  \<open>10 ^ decimals\<close>, exactly.
\<close>

lemma parseFixed_exact:
  assumes "parseFixed v d = Inr n"
  shows "real_of_int n = text_value v * 10 ^ d"
proof -
  define negative where "negative = (take 1 v = ''-'')"
  define u where "u = (if negative then drop 1 v else v)"
  define comps where "comps = split_dot u"
  define whole where "whole = (if hd comps = [] then ''0'' else hd comps)"
  define fraction where "fraction = (if length comps < 2 \<or> comps ! 1 = [] then ''0'' else comps ! 1)"
  define trimmed where "trimmed = trim_zeros fraction"
  define digits where "digits = (if trimmed = [] then ''0'' else trimmed)"
  define padded where "padded = digits @ replicate (d - length digits) (CHR ''0'')"
  define wei where "wei = int (digits_val whole * 10 ^ d + digits_val padded)"
  let ?W = "takeWhile (\<lambda>c. c \<noteq> CHR ''.'') u"
  let ?F = "drop 1 (dropWhile (\<lambda>c. c \<noteq> CHR ''.'') u)"
  from assms have len: "length comps \<le> 2" and fits: "length trimmed \<le> d"
    and n: "n = (if negative then - wei else wei)"
    unfolding parseFixed_def negative_def u_def comps_def whole_def fraction_def trimmed_def
      digits_def padded_def wei_def Let_def
    by (auto split: if_splits)
  have w: "digits_val whole = digits_val ?W"
    using split_dot_parts(1) [of u] len
    by (auto simp: whole_def comps_def digits_val_def digit_val_def)
  have f0: "fraction_value fraction = fraction_value ?F"
    using split_dot_parts(2) [of u] len
    by (auto simp: fraction_def comps_def digit_val_def split: if_splits)
  have f1: "fraction_value trimmed = fraction_value ?F"
    using f0 by (simp add: trimmed_def fraction_value_trim)
  have p: "real (digits_val padded) = fraction_value ?F * 10 ^ d"
  proof (cases "trimmed = []")
    case True
    then have "padded = [] @ replicate (Suc (d - 1)) (CHR ''0'')"
      by (simp add: padded_def digits_def)
    then have "digits_val padded = 0"
      by (simp only: digits_val_zeros) (simp add: digits_val_def)
    moreover have "fraction_value ?F = 0" using f1 True by simp
    ultimately show ?thesis by simp
  next
    case False
    then have "real (digits_val padded) = real (digits_val trimmed) * 10 ^ (d - length trimmed)"
      by (simp add: padded_def digits_def digits_val_zeros)
    also have "\<dots> = fraction_value trimmed * 10 ^ length trimmed * 10 ^ (d - length trimmed)"
      by (simp add: digits_val_fraction)
    also have "\<dots> = fraction_value trimmed * 10 ^ d"
      using fits by (simp add: power_add [symmetric])
    finally show ?thesis using f1 by simp
  qed
  have "real_of_int wei = (real (digits_val ?W) + fraction_value ?F) * 10 ^ d"
    using w p by (simp add: wei_def algebra_simps)
  then have "real_of_int n = (if negative then - 1 else 1) * (real (digits_val ?W) + fraction_value ?F) * 10 ^ d"
    using n by (simp add: algebra_simps)
  then show ?thesis
    unfolding text_value_def Let_def negative_def [symmetric] u_def [symmetric] .
qed



lemma manual_p2_amounts:
  assumes "collateralConfigs w = Inr cfg"
    and "c \<in> set (calls_of (fst (manual_p2 w a col amount)))" and "amount_of c = Some n"
  shows "parseUnits amount (decimals_p2 a cfg) = Inr n"
proof (cases "parseUnits amount (decimals_p2 a cfg)")
  case (Inl err)
  with assms show ?thesis by (simp add: manual_p2_def amount_of_def)
next
  case (Inr pa)
  with assms have "n = pa"
    by (cases a; cases "approve w"; cases "approveWait w"; cases "send w"; cases "wait w")
       (auto simp: manual_p2_def finish_p2_def amount_of_def)
  with Inr show ?thesis by simp
qed

lemma auto_mint_p2_amounts:
  "c \<in> set (calls_of (fst (auto_mint_p2 w col))) \<Longrightarrow> amount_of c = None"
  by (cases "mintAuto w"; cases "send w"; cases "wait w")
     (auto simp: auto_mint_p2_def finish_p2_def amount_of_def Let_def split: sum.splits if_splits)

lemma handleConfirm_p2_amounts:
  assumes "collateralConfigs w = Inr cfg"
    and "c \<in> set (calls_of (handleConfirm_p2 w st provider a col amount))"
    and "amount_of c = Some n"
  shows "parseUnits amount (decimals_p2 a cfg) = Inr n"
proof (cases "a = AutoMint")
  case True
  obtain evs r where s: "auto_mint_p2 w col = (evs, r)"
    by (cases "auto_mint_p2 w col")
  have "c \<in> set (calls_of evs)"
    using assms(2,3) True s
    by (auto simp: handleConfirm_p2_def amount_of_def split: if_splits option.splits)
  then show ?thesis
    using auto_mint_p2_amounts [of c w col] s assms(3) by simp
next
  case False
  obtain evs r where s: "manual_p2 w a col amount = (evs, r)"
    by (cases "manual_p2 w a col amount")
  have "c \<in> set (calls_of evs)"
    using assms(2,3) False s
    by (auto simp: handleConfirm_p2_def amount_of_def split: if_splits option.splits)
  then show ?thesis
    using manual_p2_amounts [OF assms(1), of c a col amount n] s assms(3) by simp
qed

lemma text_value_10: "text_value ''10'' = 10"
  by (simp add: text_value_def digits_val_def digit_val_def)


lemma not_decimal_rejected:
  "\<not> matches_decimal v \<Longrightarrow> \<exists>err. parseUnits v (Some 6) = Inl err"
  by (simp add: parseUnits_def parseFixed_def)

text \<open>
  When the conversion throws, the run is an invalid-amount failure in DashboardPage.js
  and in part 001; in part 002, whose conversion comes after the configuration read, no
  call that carries an amount is made.
\<close>

lemma conversion_throws_fails:
  assumes "parseUnits amount (Some 6) = Inl err" and "amount \<noteq> [] \<or> a \<noteq> AutoMint"
  shows "invalid_amount_failure (handleConfirm w provider a amount)"
  using assms
  by (auto simp: handleConfirm_def try_block_def invalid_amount_failure_def)

lemma conversion_throws_fails_p1:
  assumes "parseUnits amount (Some 6) = Inl err" and "amount \<noteq> [] \<or> a \<noteq> AutoMint"
  shows "invalid_amount_failure (handleConfirm_p1 w provider a c amount)"
  using assms
  by (auto simp: handleConfirm_p1_def invalid_amount_failure_def)






text \<open>
  Deposit and withdraw of part 002 pass \<open>cfg.decimals\<close> to the converter. Were the
  configuration to carry that property, the conversion would be exact at the declared
  decimals. With the ABI of part 002 it does not, the converter falls back to 18
  decimals, and a deposit of 10 USDC (6 decimals) asks for \<open>10 ^ 19\<close> base units.
\<close>

lemma declared_decimals_p2:
  assumes "a = Deposit \<or> a = Withdraw" and "collateralConfigs w = Inr (Some d)"
    and "c \<in> set (calls_of (handleConfirm_p2 w st provider a col amount))"
    and "amount_of c = Some n"
  shows "real_of_int n = text_value amount * 10 ^ d"
  using handleConfirm_p2_amounts [OF assms(2-4)] assms(1) parseFixed_exact [of amount d n]
  by (auto simp: decimals_p2_def parseUnits_def)

lemma parseUnits_10_default: "parseUnits ''10'' None = Inr 10000000000000000000"
  by (simp add: parse_defs digits_val_zeros) (simp add: digits_val_def digit_val_def)

lemma deposit_with_undefined_decimals_p2:
  "calls_of (handleConfirm_p2 world_p2 initial_status True Deposit USDC_ADDRESS ''10'')
     = [CollateralConfigs USDC_ADDRESS,
        Approve USDC_ADDRESS VAULT_ADDRESS 10000000000000000000, ApproveWait,
        DepositCollateral USDC_ADDRESS 10000000000000000000, TxWait]"
  by (simp add: world_p2_def handleConfirm_p2_def manual_p2_def finish_p2_def decimals_p2_def
      parseUnits_10_default)




section \<open>The validation of the amount\<close>

text \<open>
  In DashboardPage.js an amount that is empty, that \<open>parseFloat\<close> reads as \<open>NaN\<close> or that
  is \<open>\<le> 0\<close> ends the run at once, with no call and one of the two validation messages.
\<close>

lemma invalid_amount_stops:
  assumes "a \<noteq> AutoMint"
    and "amount = [] \<or> isNaN (parseFloat w amount) \<or> le_zero (parseFloat w amount)"
  shows "calls_of (handleConfirm w provider a amount) = []
       \<and> (handleConfirm w provider a amount = [SetStatus (failed_with ''Amount is required.'')]
          \<or> handleConfirm w provider a amount
               = [SetStatus (failed_with ''Please enter a valid amount greater than zero.'')])"
  using assms by (auto simp: handleConfirm_def)

text \<open>
  Part 001 tests \<open>Number(amount) <= 0\<close>, which is false for \<open>NaN\<close>. Were a non-empty
  amount that \<open>Number\<close> cannot read to reach it, the run would set the status
  "Preparing..." and fail when the conversion throws, before any call, with the message
  of the \<open>catch\<close> block.
\<close>

lemma nan_amount_passes_validation_p1:
  assumes "amount \<noteq> []" and "Number w amount = NaN"
  shows "hd (handleConfirm_p1 w True a c amount) = SetStatus (busy ''Preparing...'')
       \<and> (\<forall>err. parseUnits amount (Some 6) = Inl err \<longrightarrow>
            handleConfirm_p1 w True a c amount
              = [SetStatus (busy ''Preparing...''), SetStatus (failed_with (message_p1 err))])"
  using assms by (simp add: handleConfirm_p1_def)

lemma nan_amount_run_p1:
  "handleConfirm_p1 world_ok True Deposit USDC_ADDRESS ''abc''
     = [SetStatus (busy ''Preparing...''), SetStatus (failed_with ''invalid decimal value'')]"
proof -
  have a: "''abc'' \<noteq> []" "Number world_ok ''abc'' = NaN"
    by simp_all
  have m: "message_p1 (argument_error ''invalid decimal value'') = ''invalid decimal value''"
    by (simp add: message_p1_def argument_error_def truthy_def)
  show ?thesis
    using nan_amount_passes_validation_p1 [OF a, of Deposit USDC_ADDRESS] parseUnits_abc m
    by simp
qed

text \<open>
  C5. For an action other than auto-mint, an amount that is missing, non-numeric or
  \<open>\<le> 0\<close> gives an invalid-amount failure: the run makes no network call of any kind and
  ends failed. In DashboardPage.js the amount is non-numeric when \<open>parseFloat\<close> reads it
  as \<open>NaN\<close>; in both variants it is non-numeric, too, when it is not a decimal numeral or
  the converter refuses it.
\<close>

theorem invalid_amount_fails_without_call:
  assumes "a \<noteq> AutoMint"
  shows "(amount = [] \<or> isNaN (parseFloat w amount) \<or> le_zero (parseFloat w amount)
            \<or> \<not> matches_decimal amount \<or> parseUnits amount (Some 6) = Inl err
          \<longrightarrow> invalid_amount_failure (handleConfirm w provider a amount))
       \<and> (amount = [] \<or> le_zero (Number w amount)
            \<or> \<not> matches_decimal amount \<or> parseUnits amount (Some 6) = Inl err
          \<longrightarrow> invalid_amount_failure (handleConfirm_p1 w provider a c amount))"
proof -
  have v: "invalid_amount_failure (handleConfirm w provider a amount)"
    if "amount = [] \<or> isNaN (parseFloat w amount) \<or> le_zero (parseFloat w amount)"
    using that assms by (auto simp: handleConfirm_def invalid_amount_failure_def)
  have v1: "invalid_amount_failure (handleConfirm_p1 w provider a c amount)"
    if "amount = [] \<or> le_zero (Number w amount)"
    using that assms by (auto simp: handleConfirm_p1_def invalid_amount_failure_def)
  have t: "invalid_amount_failure (handleConfirm w provider a amount)
         \<and> invalid_amount_failure (handleConfirm_p1 w provider a c amount)"
    if "parseUnits amount (Some 6) = Inl e" for e
    using conversion_throws_fails [OF that] conversion_throws_fails_p1 [OF that] assms by simp
  have n: "invalid_amount_failure (handleConfirm w provider a amount)
         \<and> invalid_amount_failure (handleConfirm_p1 w provider a c amount)"
    if "\<not> matches_decimal amount"
    using not_decimal_rejected [OF that] t by blast
  show ?thesis
    using v v1 t n by blast
qed

theorem invalid_amount_fails_without_call_witness:
  "le_zero (parseFloat world_ok ''0'')
   \<and> invalid_amount_failure (handleConfirm world_ok True Deposit ''0'')
   \<and> isNaN (parseFloat world_ok ''abc'')
   \<and> invalid_amount_failure (handleConfirm world_ok True Deposit ''abc'')
   \<and> invalid_amount_failure (handleConfirm world_ok True Deposit [])
   \<and> le_zero (Number world_ok ''0'')
   \<and> invalid_amount_failure (handleConfirm_p1 world_ok True Deposit USDC_ADDRESS ''0'')
   \<and> invalid_amount_failure (handleConfirm_p1 world_ok True Deposit USDC_ADDRESS [])
   \<and> \<not> matches_decimal ''abc''
   \<and> invalid_amount_failure (handleConfirm_p1 world_ok True Deposit USDC_ADDRESS ''abc'')"
proof -
  have d: "Deposit \<noteq> AutoMint"
    by simp
  have z: "le_zero (parseFloat world_ok ''0'')" "le_zero (Number world_ok ''0'')"
    "isNaN (parseFloat world_ok ''abc'')" "\<not> matches_decimal ''abc''"
    by (simp_all add: matches_decimal_def is_digit_def)
  show ?thesis
    using invalid_amount_fails_without_call
            [OF d, where w = world_ok and amount = "''0''" and provider = True and c = USDC_ADDRESS]
      invalid_amount_fails_without_call
            [OF d, where w = world_ok and amount = "''abc''" and provider = True and c = USDC_ADDRESS]
      invalid_amount_fails_without_call
            [OF d, where w = world_ok and amount = "[]" and provider = True and c = USDC_ADDRESS]
      z
    by blast
qed

section \<open>One refresh after a confirmed run, none after a failed one\<close>

lemma settled_caught:
  assumes "settled p"
  shows "refresh_rule (SetStatus (busy m) #
           (case p of (evs, None) \<Rightarrow> evs | (evs, Some err) \<Rightarrow> evs @ [SetStatus (failed_with (f err))]))"
proof (cases p)
  case (Pair evs r)
  show ?thesis
  proof (cases r)
    case None
    with Pair assms obtain st where "final_status evs = Some st"
      "confirmed st \<or> failed st" "confirmed st \<longrightarrow> refreshes evs = 1" "failed st \<longrightarrow> refreshes evs = 0"
      by (auto simp: settled_def refresh_rule_def)
    then show ?thesis using Pair None by (auto simp: refresh_rule_def)
  next
    case (Some err)
    with Pair assms have "refreshes evs = 0" by (simp add: settled_def)
    then show ?thesis using Pair Some by (simp add: refresh_rule_def)
  qed
qed

lemma settled_Cons_Net:
  "settled p \<Longrightarrow> settled (case p of (evs, r) \<Rightarrow> (Net c # evs, r))"
  by (cases p; cases "snd p") (auto simp: settled_def refresh_rule_def)

lemma settled_thrown: "refreshes evs = 0 \<Longrightarrow> settled (evs, Some err)"
  by (simp add: settled_def)

lemma settled_finish: "settled (run (finish w))"
  by (cases "wait w") (simp_all add: finish_def settled_def refresh_rule_def)

lemma settled_submit: "settled (submit w a n)"
  by (cases a; cases "approve w"; cases "approveWait w"; cases "send w"; cases "wait w")
     (simp_all add: submit_def finish_def settled_def refresh_rule_def)

lemma settled_try_block: "settled (try_block w a amount)"
proof -
  have ins: "settled ([Net (BalanceOf USDC_ADDRESS), SetStatus (failed_with m)], None)" for m
    by (simp add: settled_def refresh_rule_def)
  show ?thesis
    by (simp add: try_block_def Let_def settled_thrown settled_submit settled_Cons_Net ins
             split: sum.splits)
qed

lemma refresh_rule_handleConfirm: "refresh_rule (handleConfirm w provider a amount)"
proof -
  have v: "refresh_rule [SetStatus (failed_with m)]" for m
    by (simp add: refresh_rule_def)
  show ?thesis
    unfolding handleConfirm_def
    using settled_caught [OF settled_try_block, where m = "''Preparing transaction...''" and f = friendlyMessage] v
    by simp
qed

lemma settled_submit_p1: "settled (submit_p1 w a c n)"
  by (cases a; cases "approve w"; cases "approveWait w"; cases "send w"; cases "wait w")
     (simp_all add: submit_p1_def finish_p1_def settled_def refresh_rule_def)

lemma refresh_rule_handleConfirm_p1: "refresh_rule (handleConfirm_p1 w provider a c amount)"
proof -
  have v: "refresh_rule [SetStatus (failed_with m)]" for m
    by (simp add: refresh_rule_def)
  have t: "settled (case parseUnits (if amount = [] then ''0'' else amount) (Some 6) of
                 Inl err \<Rightarrow> ([], Some err)
               | Inr parsed \<Rightarrow> submit_p1 w a c parsed)"
    using settled_submit_p1 [of w a c] by (auto simp: settled_def split: sum.splits)
  show ?thesis
    unfolding handleConfirm_p1_def
    using settled_caught [OF t, where m = "''Preparing...''" and f = message_p1] v
    by simp
qed

lemma settled_auto_mint_p2: "settled (auto_mint_p2 w c)"
  by (cases "mintAuto w"; cases "send w"; cases "wait w")
     (auto simp: auto_mint_p2_def finish_p2_def settled_def refresh_rule_def Let_def
           split: sum.splits)

lemma settled_manual_p2: "settled (manual_p2 w a c amount)"
proof -
  have r: "settled (case a of
                        Deposit \<Rightarrow>
                          run ([(SetStatus (busy ''Approving...''), None),
                                (Net (Approve c VAULT_ADDRESS n), approve w),
                                (Net ApproveWait, approveWait w),
                                (SetStatus (busy ''Depositing...''), None),
                                (Net (DepositCollateral c n), send w)]
                               @ finish_p2 w)
                      | Withdraw \<Rightarrow>
                          run ((Net (WithdrawCollateral c n), send w)
                               # finish_p2 w)
                      | Mint \<Rightarrow>
                          run ((Net (MintTokens c n), send w) # finish_p2 w)
                      | Repay \<Rightarrow>
                          run ((Net (BurnTokens c n), send w) # finish_p2 w)
                      | _ \<Rightarrow> ([], Some tx_undefined))" for n
    by (cases a; cases "approve w"; cases "approveWait w"; cases "send w"; cases "wait w")
       (simp_all add: finish_p2_def settled_def refresh_rule_def)
  show ?thesis
    unfolding manual_p2_def
    by (simp add: settled_thrown settled_Cons_Net r split: sum.splits)
qed

lemma refresh_rule_handleConfirm_p2: "refresh_rule (handleConfirm_p2 w st0 provider a c amount)"
proof -
  have v: "refresh_rule [SetStatus (st0\<lparr>error := Some m\<rparr>)]" for m
    by (simp add: refresh_rule_def confirmed_def failed_def)
  have t: "settled (if a = AutoMint then auto_mint_p2 w c else manual_p2 w a c amount)"
    by (simp add: settled_auto_mint_p2 settled_manual_p2)
  show ?thesis
    unfolding handleConfirm_p2_def
    using settled_caught [OF t, where m = "''Preparing...''" and f = message_p2] v
    by simp
qed

text \<open>
  C6. In each of the three variants every run ends confirmed or failed; a run that ends
  confirmed has called the refresh callback exactly once, and a run that ends failed has
  not called it.
\<close>

theorem refresh_exactly_when_confirmed:
  "refresh_rule (handleConfirm w provider a amount)
   \<and> refresh_rule (handleConfirm_p1 w provider a c amount)
   \<and> refresh_rule (handleConfirm_p2 w st0 provider a c amount)"
  by (simp add: refresh_rule_handleConfirm refresh_rule_handleConfirm_p1
      refresh_rule_handleConfirm_p2)

theorem refresh_exactly_when_confirmed_witness:
  "final_status (handleConfirm world_ok True Deposit ''10'') = Some (succeeded ''Transaction successful!'')
   \<and> confirmed (succeeded ''Transaction successful!'')
   \<and> refreshes (handleConfirm world_ok True Deposit ''10'') = 1
   \<and> final_status (handleConfirm (world_ok\<lparr>balanceOf := Inr 50000000, formatUnits := (\<lambda>n d. ''50.0'')\<rparr>) True Deposit ''100'')
       = Some (failed_with ''Insufficient USDC balance. You have 50.0 USDC.'')
   \<and> failed (failed_with ''Insufficient USDC balance. You have 50.0 USDC.'')
   \<and> refreshes (handleConfirm (world_ok\<lparr>balanceOf := Inr 50000000, formatUnits := (\<lambda>n d. ''50.0'')\<rparr>) True Deposit ''100'') = 0"
proof -
  let ?low = "world_ok\<lparr>balanceOf := Inr 50000000, formatUnits := (\<lambda>n d. ''50.0'')\<rparr>"
  have f1: "final_status (handleConfirm world_ok True Deposit ''10'') = Some (succeeded ''Transaction successful!'')"
    by (simp add: run_ok_deposit)
  have f2: "final_status (handleConfirm ?low True Deposit ''100'')
       = Some (failed_with ''Insufficient USDC balance. You have 50.0 USDC.'')"
    by (simp add: run_low_deposit)
  have r1: "refresh_rule (handleConfirm world_ok True Deposit ''10'')"
    using refresh_exactly_when_confirmed [of world_ok True Deposit "''10''"] by simp
  have r2: "refresh_rule (handleConfirm ?low True Deposit ''100'')"
    using refresh_exactly_when_confirmed [of ?low True Deposit "''100''"] by simp
  show ?thesis
    using r1 r2 f1 f2 by (simp add: refresh_rule_def)
qed

section \<open>The classification of stale prices\<close>

lemma selector_in_gas_revert: "sublist ''0xe450d38c'' (stringified gas_revert)"
proof -
  have "stringified gas_revert = ''{code:UNPREDICTABLE_GAS_LIMIT,error:{data:'' @ ''0xe450d38c'' @ ''}}''"
    by (simp add: gas_revert_def)
  then show ?thesis by (simp only: sublist_appendI)
qed

lemma selector_in_rpc_revert: "sublist ''0xe450d38c'' (stringified rpc_revert)"
proof -
  have "stringified rpc_revert = ''{code:-32000,data:'' @ ''0xe450d38c'' @ ''}''"
    by (simp add: rpc_revert_def)
  then show ?thesis by (simp only: sublist_appendI)
qed

lemma no_text_in_rpc_revert: "\<not> sublist ''PriceStale'' (stringified rpc_revert)"
  by (simp add: rpc_revert_def sublist_Cons_right)

text \<open>
  DashboardPage.js has a stale-price branch. When the \<open>try\<close> block throws \<open>err\<close> after the
  validation has passed: if \<open>err.code\<close> is \<open>UNPREDICTABLE_GAS_LIMIT\<close>, \<open>-32603\<close> or
  \<open>CALL_EXCEPTION\<close> and the JSON text of \<open>err\<close> contains \<open>0xe450d38c\<close>, the run ends failed
  with the long stale-oracle message; if the code is none of the three, \<open>err.reason\<close> is
  empty and the JSON text contains \<open>PriceStale\<close>, it ends failed with the short
  stale-oracle message.
\<close>

lemma stale_price_classification:
  assumes "a = AutoMint \<or> (amount \<noteq> [] \<and> \<not> isNaN (parseFloat w amount) \<and> \<not> le_zero (parseFloat w amount))"
    and "try_block w a amount = (evs, Some err)"
  shows "(code err \<in> {Some (CodeStr ''UNPREDICTABLE_GAS_LIMIT''), Some (CodeNum (- 32603)),
                       Some (CodeStr ''CALL_EXCEPTION'')}
            \<and> sublist ''0xe450d38c'' (stringified err)
          \<longrightarrow> final_status (handleConfirm w True a amount) = Some (failed_with stale_price_message))
       \<and> (code err \<notin> {Some (CodeStr ''UNPREDICTABLE_GAS_LIMIT''), Some (CodeNum (- 32603)),
                        Some (CodeStr ''CALL_EXCEPTION'')}
            \<and> \<not> truthy (reason err) \<and> sublist ''PriceStale'' (stringified err)
          \<longrightarrow> final_status (handleConfirm w True a amount) = Some (failed_with stale_price_short_message))"
proof -
  have "handleConfirm w True a amount =
          SetStatus (busy ''Preparing transaction...'') # evs @ [SetStatus (failed_with (friendlyMessage err))]"
    using assms by (auto simp: handleConfirm_def)
  then have "final_status (handleConfirm w True a amount) = Some (failed_with (friendlyMessage err))"
    using final_status_snoc [of "SetStatus (busy ''Preparing transaction...'') # evs"] by simp
  then show ?thesis by (auto simp: friendlyMessage_def)
qed

lemma stale_price_gas_revert:
  "final_status (handleConfirm (world_ok\<lparr>send := Some gas_revert\<rparr>) True Mint ''10'')
     = Some (failed_with stale_price_message)"
proof -
  have v: "Mint = AutoMint \<or> (''10'' \<noteq> [] \<and> \<not> isNaN (parseFloat (world_ok\<lparr>send := Some gas_revert\<rparr>) ''10'')
            \<and> \<not> le_zero (parseFloat (world_ok\<lparr>send := Some gas_revert\<rparr>) ''10''))"
    by (simp add: world_ok_def)
  have c: "code gas_revert \<in> {Some (CodeStr ''UNPREDICTABLE_GAS_LIMIT''), Some (CodeNum (- 32603)),
                       Some (CodeStr ''CALL_EXCEPTION'')}"
    by (simp add: gas_revert_def)
  show ?thesis
    using stale_price_classification [OF v try_block_mint_rejected] c selector_in_gas_revert
    by blast
qed

text \<open>
  The branch looks for the selector only under those three codes: a rejection with code
  \<open>-32000\<close> that carries the selector \<open>0xe450d38c\<close> ends with the generic unknown-error
  message.
\<close>

lemma stale_selector_other_code:
  "sublist ''0xe450d38c'' (stringified rpc_revert)
   \<and> final_status (handleConfirm (world_ok\<lparr>send := Some rpc_revert\<rparr>) True Mint ''10'')
       = Some (failed_with unknown_message)
   \<and> unknown_message \<noteq> stale_price_message
   \<and> unknown_message \<noteq> stale_price_short_message"
proof -
  have f: "friendlyMessage rpc_revert = unknown_message"
    using no_text_in_rpc_revert by (simp add: friendlyMessage_def rpc_revert_def truthy_def)
  have "handleConfirm (world_ok\<lparr>send := Some rpc_revert\<rparr>) True Mint ''10'' =
          [SetStatus (busy ''Preparing transaction...''), Net (MintTokens USDC_ADDRESS 10000000),
           SetStatus (failed_with (friendlyMessage rpc_revert))]"
    by (simp add: handleConfirm_def try_block_mint_rejected)
  then show ?thesis
    using selector_in_rpc_revert
    by (simp add: f) (simp add: unknown_message_def stale_price_message_def stale_price_short_message_def)
qed

text \<open>
  C7. A run whose contract call rejects with a stale-price signal ends failed with the
  dedicated stale-oracle message. Part 001 has no stale-price branch: its \<open>catch\<close> block
  looks at \<open>err.code\<close> and \<open>err.reason\<close> only. A mint whose contract call rejects with an
  error that carries the selector \<open>0xe450d38c\<close> or the text \<open>PriceStale\<close> ends failed
  with "Gas estimate failed." if the code is \<open>UNPREDICTABLE_GAS_LIMIT\<close>, with the generic
  "Unknown error." if it is not and there is no reason, and with neither stale-oracle
  message unless the reason of the error happens to be one.
\<close>

theorem stale_price_unclassified_p1:
  assumes "amount \<noteq> []" and "\<not> le_zero (Number w amount)"
    and "parseUnits amount (Some 6) = Inr n" and "send w = Some err"
    and "sublist ''0xe450d38c'' (stringified err) \<or> sublist ''PriceStale'' (stringified err)"
  shows "handleConfirm_p1 w True Mint c amount
           = [SetStatus (busy ''Preparing...''), Net (MintTokens c n),
              SetStatus (failed_with (message_p1 err))]
       \<and> (code err = Some (CodeStr ''UNPREDICTABLE_GAS_LIMIT'')
            \<longrightarrow> message_p1 err = ''Gas estimate failed.'')
       \<and> (code err \<noteq> Some (CodeStr ''UNPREDICTABLE_GAS_LIMIT'') \<and> \<not> truthy (reason err)
            \<longrightarrow> message_p1 err = ''Unknown error.'')
       \<and> (reason err \<notin> {Some stale_price_message, Some stale_price_short_message}
            \<longrightarrow> message_p1 err \<notin> {stale_price_message, stale_price_short_message})"
proof -
  have "handleConfirm_p1 w True Mint c amount
           = [SetStatus (busy ''Preparing...''), Net (MintTokens c n),
              SetStatus (failed_with (message_p1 err))]"
    using assms(1-4) by (simp add: handleConfirm_p1_def submit_p1_def finish_p1_def)
  moreover have "message_p1 err \<notin> {stale_price_message, stale_price_short_message}"
    if "reason err \<notin> {Some stale_price_message, Some stale_price_short_message}"
    using that
    by (cases "reason err")
       (auto simp: message_p1_def truthy_def stale_price_message_def stale_price_short_message_def)
  ultimately show ?thesis
    by (simp add: message_p1_def)
qed

theorem stale_price_unclassified_p1_witness:
  "sublist ''0xe450d38c'' (stringified gas_revert)
   \<and> handleConfirm_p1 (world_ok\<lparr>send := Some gas_revert\<rparr>) True Mint USDC_ADDRESS ''10''
       = [SetStatus (busy ''Preparing...''), Net (MintTokens USDC_ADDRESS 10000000),
          SetStatus (failed_with ''Gas estimate failed.'')]
   \<and> sublist ''0xe450d38c'' (stringified rpc_revert)
   \<and> handleConfirm_p1 (world_ok\<lparr>send := Some rpc_revert\<rparr>) True Mint USDC_ADDRESS ''10''
       = [SetStatus (busy ''Preparing...''), Net (MintTokens USDC_ADDRESS 10000000),
          SetStatus (failed_with ''Unknown error.'')]
   \<and> ''Gas estimate failed.'' \<notin> {stale_price_message, stale_price_short_message}
   \<and> ''Unknown error.'' \<notin> {stale_price_message, stale_price_short_message}"
proof -
  let ?g = "world_ok\<lparr>send := Some gas_revert\<rparr>"
  let ?r = "world_ok\<lparr>send := Some rpc_revert\<rparr>"
  have a: "''10'' \<noteq> []"
    by simp
  have ng: "\<not> le_zero (Number ?g ''10'')" and nr: "\<not> le_zero (Number ?r ''10'')"
    by simp_all
  have sg: "send ?g = Some gas_revert" and sr: "send ?r = Some rpc_revert"
    by simp_all
  have cg: "code gas_revert = Some (CodeStr ''UNPREDICTABLE_GAS_LIMIT'')"
    "reason gas_revert \<notin> {Some stale_price_message, Some stale_price_short_message}"
    by (simp_all add: gas_revert_def stale_price_message_def stale_price_short_message_def)
  have cr: "code rpc_revert \<noteq> Some (CodeStr ''UNPREDICTABLE_GAS_LIMIT'')"
    "\<not> truthy (reason rpc_revert)"
    "reason rpc_revert \<notin> {Some stale_price_message, Some stale_price_short_message}"
    by (simp_all add: rpc_revert_def truthy_def)
  have tg: "sublist ''0xe450d38c'' (stringified gas_revert)
            \<or> sublist ''PriceStale'' (stringified gas_revert)"
    using selector_in_gas_revert by simp
  have tr: "sublist ''0xe450d38c'' (stringified rpc_revert)
            \<or> sublist ''PriceStale'' (stringified rpc_revert)"
    using selector_in_rpc_revert by simp
  show ?thesis
    using stale_price_unclassified_p1 [OF a ng parseUnits_10 sg tg, of USDC_ADDRESS]
      stale_price_unclassified_p1 [OF a nr parseUnits_10 sr tr, of USDC_ADDRESS]
      cg cr selector_in_gas_revert selector_in_rpc_revert
    by (simp add: stale_price_message_def stale_price_short_message_def)
qed

section \<open>The dashboard refresh fails as a whole\<close>

lemma first_not_ok_some:
  "\<not> list_all ok rs \<Longrightarrow> first_not_ok w rs \<noteq> None"
  by (induction rs) (auto split: sum.splits option.splits)

text \<open>
  C8. When the five responses arrive and at least one of them is not ok, the refresh fails
  as a whole: an error is recorded and the vault position, the mint status, the oracle
  price, the transactions and the protocol health (in part 002 the pending requests too)
  stay what they were.
\<close>

theorem refresh_not_ok:
  assumes "truthy authToken" and "truthy walletAddress"
    and "\<not> (ok (vaultRes r) \<and> ok (mintStatusRes r) \<and> ok (oracleRes r)
             \<and> ok (transactionsRes r) \<and> ok (protocolHealthRes r))"
    and "\<not> list_all ok [vault_reply r2, mint_status_reply r2, health_reply r2,
                          transactions_reply r2, requests_reply r2]"
  shows "snapshots (fetchData authToken walletAddress (Inr r) now s) = snapshots s
       \<and> dash_error (fetchData authToken walletAddress (Inr r) now s) \<noteq> None
       \<and> snapshots (fetchData_p2 w authToken walletAddress (Inr r2) now s2) = snapshots s2
       \<and> pendingRequests (fetchData_p2 w authToken walletAddress (Inr r2) now s2) = pendingRequests s2
       \<and> dash_error (fetchData_p2 w authToken walletAddress (Inr r2) now s2) \<noteq> None"
proof -
  have d: "snapshots (fetchData authToken walletAddress (Inr r) now s) = snapshots s
       \<and> dash_error (fetchData authToken walletAddress (Inr r) now s) \<noteq> None"
    using assms(1-3) by (auto simp: fetchData_def snapshots_def)
  obtain err where e: "first_not_ok w [vault_reply r2, mint_status_reply r2, health_reply r2,
                          transactions_reply r2, requests_reply r2] = Some err"
    using first_not_ok_some[OF assms(4), of w] by blast
  have p: "fetchData_p2 w authToken walletAddress (Inr r2) now s2
             = s2\<lparr>dash_isLoading := False, dash_error := Some (message err)\<rparr>"
    using assms(1,2) e by (simp add: fetchData_p2_def)
  show ?thesis using d by (simp add: p snapshots_def)
qed

theorem refresh_not_ok_witness:
  "\<not> ok (transactionsRes one_401) \<and> \<not> ok (transactions_reply one_401_p2)
   \<and> snapshots (fetchData (Some ''token'') (Some ''0xabc'') (Inr one_401) 1 initial_dashboard)
       = snapshots initial_dashboard
   \<and> dash_error (fetchData (Some ''token'') (Some ''0xabc'') (Inr one_401) 1 initial_dashboard) \<noteq> None
   \<and> snapshots (fetchData_p2 world_ok (Some ''token'') (Some ''0xabc'') (Inr one_401_p2) 1 initial_dashboard_p2)
       = snapshots initial_dashboard_p2
   \<and> pendingRequests (fetchData_p2 world_ok (Some ''token'') (Some ''0xabc'') (Inr one_401_p2) 1 initial_dashboard_p2)
       = pendingRequests initial_dashboard_p2
   \<and> dash_error (fetchData_p2 world_ok (Some ''token'') (Some ''0xabc'') (Inr one_401_p2) 1 initial_dashboard_p2) \<noteq> None"
proof -
  have a: "truthy (Some ''token'')" "truthy (Some ''0xabc'')"
    by (simp_all add: truthy_def)
  have b: "\<not> (ok (vaultRes one_401) \<and> ok (mintStatusRes one_401) \<and> ok (oracleRes one_401)
             \<and> ok (transactionsRes one_401) \<and> ok (protocolHealthRes one_401))"
    by (simp add: one_401_def reply_401_def)
  have c: "\<not> list_all ok [vault_reply one_401_p2, mint_status_reply one_401_p2, health_reply one_401_p2,
                          transactions_reply one_401_p2, requests_reply one_401_p2]"
    by (simp add: one_401_p2_def reply_401_def)
  have d: "\<not> ok (transactionsRes one_401) \<and> \<not> ok (transactions_reply one_401_p2)"
    by (simp add: one_401_def one_401_p2_def reply_401_def)
  show ?thesis
    using refresh_not_ok [OF a b c, of 1 initial_dashboard world_ok initial_dashboard_p2] d
    by simp
qed

section \<open>Page changes out of range\<close>

text \<open>
  The page size never changes: it is 10 when the view is mounted.
\<close>

lemma fetchTransactions_limit:
  "limit (pagination (fetchTransactions v pg type)) = limit (pagination v)"
  by (simp add: fetchTransactions_def split: prod.split)

lemma handlePageChange_limit:
  "limit (pagination (fst (handlePageChange v p))) = limit (pagination v)"
  by (simp add: handlePageChange_def fetchTransactions_limit)

lemma handleFilterChange_limit:
  "limit (pagination (handleFilterChange v type)) = limit (pagination v)"
  by (simp add: handleFilterChange_def)

lemma filter_effect_limit:
  "limit (pagination (filter_effect previous v)) = limit (pagination v)"
  by (simp add: filter_effect_def fetchTransactions_limit)

text \<open>
  C9. A page change to a target below 1 or above \<open>ceil(total / limit)\<close> starts no fetch
  and leaves the transactions list and the pagination state (and the rest of the view) as
  they were. The page size is not zero.
\<close>

theorem handlePageChange_out_of_range:
  assumes "limit (pagination v) \<noteq> 0"
    and "p < 1 \<or> real_of_int p > real_of_int \<lceil>real_of_int (total (pagination v)) / real_of_int (limit (pagination v))\<rceil>"
  shows "handlePageChange v p = (v, [])"
  using assms by (auto simp: handlePageChange_def ceil_div_def)

theorem handlePageChange_out_of_range_witness:
  "handlePageChange (fetchTransactions initial_view 1 ''all'') 6
     = (fetchTransactions initial_view 1 ''all'', [])
   \<and> handlePageChange (fetchTransactions initial_view 1 ''all'') 0
     = (fetchTransactions initial_view 1 ''all'', [])"
proof -
  have tot: "total (pagination (fetchTransactions initial_view 1 ''all'')) = 47"
    by (simp add: fetchTransactions_def generateMockTransactions_def allTransactions_def
        initial_view_def split: prod.split)
  have lim: "limit (pagination (fetchTransactions initial_view 1 ''all'')) = 10"
    by (simp add: fetchTransactions_limit initial_view_def)
  have c: "\<lceil>(47::real) / 10\<rceil> = 5"
    by (simp add: ceiling_eq_iff)
  show ?thesis
    using handlePageChange_out_of_range [of "fetchTransactions initial_view 1 ''all''" 6]
      handlePageChange_out_of_range [of "fetchTransactions initial_view 1 ''all''" 0]
    by (simp add: tot lim c)
qed

section \<open>The display formatters\<close>

text \<open>
  The fallbacks: \<open>undefined\<close> and every string that \<open>parseFloat\<close> reads as \<open>NaN\<close> give
  \<open>$0.00\<close> and \<open>0\<close>; in part 002 so does every value whose \<open>parseFloat\<close> is \<open>NaN\<close>.
\<close>

lemma formatters_fallback:
  "formatCurrency w VUndefined d = Inr ''$0.00''"
  "formatNumber w VUndefined = Inr ''0''"
  "isNaN (parseFloat w t) \<Longrightarrow> formatCurrency w (VStr t) d = Inr ''$0.00''"
  "isNaN (parseFloat w t) \<Longrightarrow> formatNumber w (VStr t) = Inr ''0''"
  "isNaN (parseFloat_of w v) \<Longrightarrow> formatCurrency_p2 w v d = Inr ''$0.00''"
  "isNaN (parseFloat_of w v) \<Longrightarrow> formatNumber_p2 w v = Inr ''0''"
  by (simp_all add: formatCurrency_def formatNumber_def formatCurrency_p2_def formatNumber_p2_def
      toNumber_def)

text \<open>
  C10. The formatters return their fallback for every input that is not a number,
  \<open>null\<close> included, and never throw. \<open>formatNumber\<close> of DashboardPage.js (and of part 001
  and AdminPage.js) throws on \<open>null\<close>: \<open>isNaN(null)\<close> is false, and \<open>null\<close> has no
  \<open>toLocaleString\<close>. The one of part 002 returns \<open>0\<close>.
\<close>

theorem formatNumber_null_throws:
  "formatNumber w VNull = Inl null_property \<and> formatNumber_p2 w VNull = Inr ''0''"
  by (simp add: formatNumber_def formatNumber_p2_def toNumber_def parseFloat_of_def)

end
